theory Spec2Isabelle
  imports Complex_Main
begin

section \<open>Brand kit generators: a shallow embedding\<close>

text \<open>
  The repository holds two scripts, \<^verbatim>\<open>generate_brandkit_pptx.py\<close> (python-pptx) and
  \<^verbatim>\<open>generate_brandkit_pdf.py\<close> (reportlab). Both build a document from literal
  content. The embedding follows the scripts function by function for the layout loops,
  the recurring page frame, the logo steps and the token loading.

  Conventions of the embedding:
  \<^item> A slide's shape collection is append-only, so every helper is modelled by the list
    of shapes it appends, in call order; a builder is the concatenation of its steps.
  \<^item> A step that can raise has type \<open>error + shape list\<close>; the only such call in the
    slide deck is \<^verbatim>\<open>add_picture\<close> (it opens the logo file).
  \<^item> Python floats are modelled by exact rationals. On every \<^verbatim>\<open>Inches(...)\<close> and
    \<^verbatim>\<open>Pt(...)\<close> literal of the source, and on the gradient products of the source's
    data, the double-precision result truncates to the same integer as the exact one.
  \<^item> Strings are byte lists; the few non-ASCII characters of the texts used below are
    written as their UTF-8 bytes.
  \<^item> Speaker notes and font typeface names carry no layout and are left out.
\<close>

subsection \<open>Units and colours (python-pptx)\<close>

text \<open>Python's \<^verbatim>\<open>int(x)\<close> on a float truncates toward zero.\<close>

definition py_int :: "rat \<Rightarrow> int" where
  "py_int q = (if 0 \<le> q then \<lfloor>q\<rfloor> else \<lceil>q\<rceil>)"

text \<open>
  \<^verbatim>\<open>pptx.util.Inches(x)\<close> is \<^verbatim>\<open>int(x * 914400)\<close> English Metric Units and
  \<^verbatim>\<open>pptx.util.Pt(x)\<close> is \<^verbatim>\<open>int(x * 12700)\<close>; both are subclasses of \<^verbatim>\<open>int\<close>.
\<close>

definition Inches :: "rat \<Rightarrow> int" where
  "Inches inches = py_int (inches * 914400)"

definition Pt :: "rat \<Rightarrow> int" where
  "Pt points = py_int (points * 12700)"

datatype rgb = RGBColor nat nat nat

definition NAVY_DARK :: rgb where "NAVY_DARK = RGBColor 0x14 0x28 0x57"
definition NAVY :: rgb where "NAVY = RGBColor 0x19 0x3F 0x8F"
definition BLUE_PRIMARY :: rgb where "BLUE_PRIMARY = RGBColor 0x1A 0x6E 0xF5"
definition BLUE_BRIGHT :: rgb where "BLUE_BRIGHT = RGBColor 0x33 0x8D 0xFF"
definition BLUE_LIGHT :: rgb where "BLUE_LIGHT = RGBColor 0x59 0xB0 0xFF"
definition BLUE_PALE :: rgb where "BLUE_PALE = RGBColor 0xBC 0xE0 0xFF"
definition BLUE_TINT :: rgb where "BLUE_TINT = RGBColor 0xEE 0xF7 0xFF"
definition ACCENT_PRI :: rgb where "ACCENT_PRI = RGBColor 0xF9 0x73 0x16"
definition ACCENT_LT :: rgb where "ACCENT_LT = RGBColor 0xFB 0x92 0x3C"
definition EMERALD :: rgb where "EMERALD = RGBColor 0x10 0xB9 0x81"
definition EMERALD_DK :: rgb where "EMERALD_DK = RGBColor 0x05 0x96 0x69"
definition LOGO_NAVY :: rgb where "LOGO_NAVY = RGBColor 0x1B 0x3A 0x5C"
definition LOGO_GOLD :: rgb where "LOGO_GOLD = RGBColor 0xC5 0x96 0x1E"
definition LOGO_BG :: rgb where "LOGO_BG = RGBColor 0xFA 0xF6 0xF1"
definition TEXT_DARK :: rgb where "TEXT_DARK = RGBColor 0x1E 0x29 0x3B"
definition TEXT_GRAY :: rgb where "TEXT_GRAY = RGBColor 0x64 0x74 0x8B"
definition TEXT_MUTED :: rgb where "TEXT_MUTED = RGBColor 0x94 0xA3 0xB8"
definition BORDER :: rgb where "BORDER = RGBColor 0xE2 0xE8 0xF0"
definition BG_ALT :: rgb where "BG_ALT = RGBColor 0xF8 0xFA 0xFC"
definition WHITE :: rgb where "WHITE = RGBColor 0xFF 0xFF 0xFF"

lemmas colour_defs =
  NAVY_DARK_def NAVY_def BLUE_PRIMARY_def BLUE_BRIGHT_def BLUE_LIGHT_def BLUE_PALE_def
  BLUE_TINT_def ACCENT_PRI_def ACCENT_LT_def EMERALD_def EMERALD_DK_def LOGO_NAVY_def
  LOGO_GOLD_def LOGO_BG_def TEXT_DARK_def TEXT_GRAY_def TEXT_MUTED_def BORDER_def
  BG_ALT_def WHITE_def

subsection \<open>Shapes and the slide helpers\<close>

datatype alignment = LEFT | CENTER | RIGHT

datatype shape_type = RECTANGLE | ROUNDED_RECTANGLE | OVAL

text \<open>One run of text with the properties \<^verbatim>\<open>set_font\<close> writes.\<close>

record run =
  run_text :: string
  run_size :: rat
  run_bold :: bool
  run_italic :: bool
  run_color :: rgb

text \<open>
  A shape as the helpers leave it: an autoshape with a solid fill and either no outline
  (\<^verbatim>\<open>shape.line.fill.background()\<close>, \<open>None\<close>) or the outline colour and width
  assigned afterwards; a text box with its paragraphs, each a list of runs with a
  paragraph alignment; a picture placed by its left, top and width.
\<close>

datatype shape =
    AutoShape shape_type int int int int rgb "(rgb \<times> int) option"
  | TextBox int int int int "(alignment \<times> run list) list"
  | Picture int int int

fun shape_left :: "shape \<Rightarrow> int" where
  "shape_left (AutoShape t l tp w h c ol) = l"
| "shape_left (TextBox l tp w h ps) = l"
| "shape_left (Picture l tp w) = l"

fun shape_top :: "shape \<Rightarrow> int" where
  "shape_top (AutoShape t l tp w h c ol) = tp"
| "shape_top (TextBox l tp w h ps) = tp"
| "shape_top (Picture l tp w) = tp"



text \<open>The texts a shape shows: the runs of a text box, in order; nothing otherwise.\<close>

fun shape_texts :: "shape \<Rightarrow> string list" where
  "shape_texts (AutoShape t l tp w h c ol) = []"
| "shape_texts (TextBox l tp w h ps) = map run_text (concat (map snd ps))"
| "shape_texts (Picture l tp w) = []"

text \<open>The paragraph alignments of a text box.\<close>

fun shape_aligns :: "shape \<Rightarrow> alignment list" where
  "shape_aligns (AutoShape t l tp w h c ol) = []"
| "shape_aligns (TextBox l tp w h ps) = map fst ps"
| "shape_aligns (Picture l tp w) = []"

definition shape_origin :: "shape \<Rightarrow> int \<times> int" where
  "shape_origin s = (shape_left s, shape_top s)"

definition set_font :: "string \<Rightarrow> rat \<Rightarrow> bool \<Rightarrow> bool \<Rightarrow> rgb \<Rightarrow> run" where
  "set_font txt size_pt b i c =
     \<lparr>run_text = txt, run_size = size_pt, run_bold = b, run_italic = i, run_color = c\<rparr>"

definition add_shape_with_fill ::
  "int \<Rightarrow> int \<Rightarrow> int \<Rightarrow> int \<Rightarrow> rgb \<Rightarrow> shape_type \<Rightarrow> shape" where
  "add_shape_with_fill left tp width height fill_color shp =
     AutoShape shp left tp width height fill_color None"

text \<open>\<^verbatim>\<open>s.line.color.rgb = c; s.line.width = w\<close> on a shape just added.\<close>

fun with_line :: "rgb \<Rightarrow> int \<Rightarrow> shape \<Rightarrow> shape" where
  "with_line c w (AutoShape t l tp wd h f ol) = AutoShape t l tp wd h f (Some (c, w))"
| "with_line c w s = s"

definition add_textbox ::
  "int \<Rightarrow> int \<Rightarrow> int \<Rightarrow> int \<Rightarrow> string \<Rightarrow> rat \<Rightarrow> bool \<Rightarrow> bool \<Rightarrow> rgb \<Rightarrow> alignment \<Rightarrow> shape" where
  "add_textbox left tp width height txt font_size b i c al =
     TextBox left tp width height [(al, [set_font txt font_size b i c])]"

text \<open>Non-ASCII characters of the texts below, as UTF-8 bytes.\<close>

definition em_dash :: string where "em_dash = [CHR 0xE2, CHR 0x80, CHR 0x94]"
definition rarrow :: string where "rarrow = [CHR 0xE2, CHR 0x86, CHR 0x92]"
definition bullet :: string where "bullet = [CHR 0xE2, CHR 0x80, CHR 0xA2]"
definition copyright :: string where "copyright = [CHR 0xC2, CHR 0xA9]"
definition black_circle :: string where "black_circle = [CHR 0xE2, CHR 0x97, CHR 0x8F]"
definition star :: string where "star = [CHR 0xE2, CHR 0x98, CHR 0x85]"
definition check_mark :: string where "check_mark = [CHR 0xE2, CHR 0x9C, CHR 0x93]"
definition ballot_x :: string where "ballot_x = [CHR 0xE2, CHR 0x9C, CHR 0x97]"
definition shield_icon :: string where "shield_icon = [CHR 0xF0, CHR 0x9F, CHR 0x9B, CHR 0xA1]"
definition bolt_icon :: string where "bolt_icon = [CHR 0xE2, CHR 0x9A, CHR 0xA1]"
definition target_icon :: string where "target_icon = [CHR 0xF0, CHR 0x9F, CHR 0x8E, CHR 0xAF]"
definition sparkles_icon :: string where "sparkles_icon = [CHR 0xE2, CHR 0x9C, CHR 0xA8]"

text \<open>
  \<^verbatim>\<open>str.upper()\<close> on the ASCII letters; every other byte is kept (the strings it is
  applied to are hexadecimal colour codes).
\<close>

definition upper_char :: "char \<Rightarrow> char" where
  "upper_char c =
     (let n = (of_char c :: nat)
      in if 97 \<le> n \<and> n \<le> 122 then char_of (n - 32) else c)"

definition upper :: "string \<Rightarrow> string" where
  "upper s = map upper_char s"

text \<open>
  The value of a hexadecimal digit, or \<open>None\<close> for any other character.
\<close>

definition hex_digit :: "char \<Rightarrow> nat option" where
  "hex_digit c =
     (let n = (of_char c :: nat)
      in if 48 \<le> n \<and> n \<le> 57 then Some (n - 48)
         else if 97 \<le> n \<and> n \<le> 102 then Some (n - 87)
         else if 65 \<le> n \<and> n \<le> 70 then Some (n - 55)
         else None)"

text \<open>
  \<^verbatim>\<open>int(s, 16)\<close> on a two-character slice. The embedding reads two hexadecimal
  digits and takes anything else for the \<^verbatim>\<open>ValueError\<close> (Python also reads one digit
  with a sign or a blank beside it, which no colour string of the source has).
\<close>

definition hex_byte :: "string \<Rightarrow> nat option" where
  "hex_byte s =
     (case s of
        [a, b] \<Rightarrow>
          (case (hex_digit a, hex_digit b) of
             (Some m, Some n) \<Rightarrow> Some (16 * m + n)
           | _ \<Rightarrow> None)
      | _ \<Rightarrow> None)"

text \<open>Python's \<^verbatim>\<open>str(n)\<close> for a non-negative integer.\<close>

fun str_nat :: "nat \<Rightarrow> string" where
  "str_nat n =
     (if n < 10 then [char_of (48 + n)]
      else str_nat (n div 10) @ [char_of (48 + n mod 10)])"

declare str_nat.simps [simp del]

subsection \<open>Errors and fallible steps\<close>

datatype error = FileNotFoundError | JSONDecodeError | ZeroDivisionError | ValueError

definition ok :: "'a list \<Rightarrow> error + 'a list" where
  "ok xs = Inr xs"

definition single :: "error + 'a \<Rightarrow> error + 'a list" where
  "single r = (case r of Inl e \<Rightarrow> Inl e | Inr x \<Rightarrow> Inr [x])"

text \<open>
  Statements run in order; the first one that raises ends the function with its error,
  otherwise what they drew is concatenated.
\<close>

fun run_steps :: "(error + 'a list) list \<Rightarrow> error + 'a list" where
  "run_steps [] = Inr []"
| "run_steps (s # ss) =
     (case s of
        Inl e \<Rightarrow> Inl e
      | Inr xs \<Rightarrow> (case run_steps ss of Inl e \<Rightarrow> Inl e | Inr ys \<Rightarrow> Inr (xs @ ys)))"

text \<open>
  \<^verbatim>\<open>slide.shapes.add_picture(LOGO_PATH, left, top, width=...)\<close> opens the file and
  raises when it is not there. The flag is the state of the file system at
  \<^verbatim>\<open>LOGO_PATH\<close>, the same one \<^verbatim>\<open>os.path.exists(LOGO_PATH)\<close> reads.
\<close>

definition add_picture :: "bool \<Rightarrow> int \<Rightarrow> int \<Rightarrow> int \<Rightarrow> error + shape" where
  "add_picture logo_file left tp width =
     (if logo_file then Inr (Picture left tp width) else Inl FileNotFoundError)"

text \<open>
  The swatch loops read a colour with \<^verbatim>\<open>int(hex_code[1:3], 16), int(hex_code[3:5], 16),
  int(hex_code[5:7], 16)\<close> and \<^verbatim>\<open>RGBColor(r, g, b)\<close>.
\<close>

definition parse_rgb :: "string \<Rightarrow> error + rgb" where
  "parse_rgb hex_code =
     (case (hex_byte (take 2 (drop 1 hex_code)),
            hex_byte (take 2 (drop 3 hex_code)),
            hex_byte (take 2 (drop 5 hex_code))) of
        (Some r, Some g, Some b) \<Rightarrow> Inr (RGBColor r g b)
      | _ \<Rightarrow> Inl ValueError)"

subsection \<open>The recurring frame of the slide deck\<close>

definition add_accent_bar :: "int \<Rightarrow> rgb \<Rightarrow> int \<Rightarrow> shape list" where
  "add_accent_bar tp color height =
     [add_shape_with_fill (Inches 0) tp (Inches 13.333) height color RECTANGLE]"

definition footer_tagline :: string where
  "footer_tagline = ''CredSuvidha '' @ em_dash @ '' Trusted Partner. Swift Solutions.''"

definition footer_domain :: string where
  "footer_domain = ''www.credsuvidha.com''"

definition add_footer_bar :: "shape list" where
  "add_footer_bar =
     [add_shape_with_fill (Inches 0) (Inches 7.08) (Inches 13.333) (Inches 0.42) NAVY_DARK RECTANGLE,
      add_textbox (Inches 0.4) (Inches 7.13) (Inches 5) (Inches 0.3)
        footer_tagline 9 False True BLUE_LIGHT LEFT,
      add_textbox (Inches 9.5) (Inches 7.13) (Inches 3.5) (Inches 0.3)
        footer_domain 9 False False LOGO_GOLD RIGHT]"

definition add_slide_number :: "nat \<Rightarrow> nat \<Rightarrow> shape list" where
  "add_slide_number number tot =
     [add_textbox (Inches 6.2) (Inches 7.15) (Inches 1) (Inches 0.25)
        (str_nat number @ ''/'' @ str_nat tot) 9 False False WHITE CENTER]"

definition add_logo_header :: "bool \<Rightarrow> error + shape list" where
  "add_logo_header logo_file =
     (if logo_file
      then single (add_picture logo_file (Inches 10.8) (Inches 0.2) (Inches 2.2))
      else Inr [])"

text \<open>
  The four calls every content-slide builder starts with:
  \<^verbatim>\<open>add_accent_bar(slide); add_logo_header(slide); add_footer_bar(slide);
  add_slide_number(slide, n)\<close>, with the defaults \<^verbatim>\<open>top=Inches(0)\<close>,
  \<^verbatim>\<open>color=BLUE_PRIMARY\<close>, \<^verbatim>\<open>height=Pt(4)\<close> and \<^verbatim>\<open>total=12\<close>.
\<close>

definition frame_steps :: "bool \<Rightarrow> rgb \<Rightarrow> int \<Rightarrow> nat \<Rightarrow> (error + shape list) list" where
  "frame_steps logo_file bar_color bar_height n =
     [ok (add_accent_bar (Inches 0) bar_color bar_height),
      add_logo_header logo_file,
      ok add_footer_bar,
      ok (add_slide_number n 12)]"

record slide =
  background :: rgb
  shapes :: "shape list"

definition make_slide :: "rgb \<Rightarrow> (error + shape list) list \<Rightarrow> error + slide" where
  "make_slide bg steps =
     (case run_steps steps of
        Inl e \<Rightarrow> Inl e
      | Inr shs \<Rightarrow> Inr \<lparr>background = bg, shapes = shs\<rparr>)"

subsection \<open>Slide 5: gradients\<close>

text \<open>
  The inner loop of \<^verbatim>\<open>build_gradients_slide\<close>:
  \<^verbatim>\<open>cx = x; for color, fraction in color_stops: seg_w = int(total_w * fraction);
  add_shape_with_fill(slide, cx, y, seg_w, card_h, color); cx += seg_w\<close>.
\<close>

fun gradient_segments :: "int \<Rightarrow> int \<Rightarrow> int \<Rightarrow> int \<Rightarrow> (rgb \<times> rat) list \<Rightarrow> shape list" where
  "gradient_segments total_w cx y card_h [] = []"
| "gradient_segments total_w cx y card_h ((color, fraction) # color_stops) =
     (let seg_w = py_int (of_int total_w * fraction)
      in add_shape_with_fill cx y seg_w card_h color RECTANGLE
         # gradient_segments total_w (cx + seg_w) y card_h color_stops)"

definition gradients_origin :: "nat \<Rightarrow> int \<times> int" where
  "gradients_origin i =
     (let card_w = Inches 5.8; card_h = Inches 0.7; start_y = Inches 1.65;
          col = (if i < 3 then 0 else 1);
          row = i mod 3;
          x = Inches 0.8 + col * (card_w + Inches 0.3);
          y = start_y + int row * (card_h + Inches 0.55)
      in (x, y))"

text \<open>The body of the outer loop, for item \<open>i\<close> of \<^verbatim>\<open>enumerate(gradients)\<close>.\<close>

definition gradient_card :: "nat \<Rightarrow> string \<times> string \<times> (rgb \<times> rat) list \<Rightarrow> shape list" where
  "gradient_card i g =
     (case g of (name, css, color_stops) \<Rightarrow>
        (let card_w = Inches 5.8; card_h = Inches 0.7;
             x = fst (gradients_origin i); y = snd (gradients_origin i)
         in gradient_segments card_w x y card_h color_stops @
            [add_textbox x (y + card_h + Pt 2) card_w (Inches 0.2)
               name 11 True False NAVY_DARK LEFT,
             add_textbox x (y + card_h + Inches 0.22) card_w (Inches 0.2)
               css 8 False False TEXT_MUTED LEFT]))"

definition gradient_cards ::
  "(string \<times> string \<times> (rgb \<times> rat) list) list \<Rightarrow> shape list list" where
  "gradient_cards gs = map (\<lambda>(i, g). gradient_card i g) (enumerate 0 gs)"

definition gradients :: "(string \<times> string \<times> (rgb \<times> rat) list) list" where
  "gradients =
     [(''Primary CTA'', ''linear-gradient(135deg, #1a6ef5, #338dff)'',
       [(BLUE_PRIMARY, 0.5), (BLUE_BRIGHT, 0.5)]),
      (''Hero / Header'',
       ''linear-gradient(135deg, #142857 '' @ rarrow @ '' #1a6ef5 '' @ rarrow @ '' #338dff)'',
       [(NAVY_DARK, 0.33), (BLUE_PRIMARY, 0.34), (BLUE_BRIGHT, 0.33)]),
      (''Accent CTA'', ''linear-gradient(135deg, #f97316, #fb923c)'',
       [(ACCENT_PRI, 0.5), (ACCENT_LT, 0.5)]),
      (''Gradient Text'',
       ''linear-gradient(135deg, #1a6ef5 '' @ rarrow @ '' #338dff '' @ rarrow @ '' #f97316)'',
       [(BLUE_PRIMARY, 0.33), (BLUE_BRIGHT, 0.34), (ACCENT_PRI, 0.33)]),
      (''Success'', ''linear-gradient(135deg, #059669, #10b981)'',
       [(EMERALD_DK, 0.5), (EMERALD, 0.5)]),
      (''Logo Badge'', ''linear-gradient(to bottom right, #1a6ef5, #59b0ff)'',
       [(BLUE_PRIMARY, 0.5), (BLUE_LIGHT, 0.5)])]"

text \<open>
  \<^verbatim>\<open>build_gradients_slide\<close> as a function of the list its loop runs over; the source
  binds the local \<^verbatim>\<open>gradients\<close> to the literal list above.
\<close>

definition gradients_slide_of ::
  "bool \<Rightarrow> (string \<times> string \<times> (rgb \<times> rat) list) list \<Rightarrow> error + slide" where
  "gradients_slide_of logo_file gs =
     make_slide BG_ALT
       (frame_steps logo_file BLUE_PRIMARY (Pt 4) 5 @
        [ok [add_textbox (Inches 0.8) (Inches 0.5) (Inches 8) (Inches 0.7)
               ''Gradients'' 32 True False NAVY_DARK LEFT,
             add_textbox (Inches 0.8) (Inches 1.1) (Inches 11.7) (Inches 0.4)
               ''Signature gradients used across buttons, backgrounds, and accent elements.''
               13 False False TEXT_GRAY LEFT],
         ok (concat (gradient_cards gs))])"

definition build_gradients_slide :: "bool \<Rightarrow> error + slide" where
  "build_gradients_slide logo_file = gradients_slide_of logo_file gradients"

subsection \<open>Card grids of the slide deck\<close>

text \<open>
  Slide 8, \<^verbatim>\<open>build_brand_values_slide\<close>: \<^verbatim>\<open>col = i % 2; row = i // 2;
  x = Inches(0.8) + col * (card_w + Inches(0.3)); y = Inches(1.65) + row * (card_h + Inches(0.25))\<close>.
\<close>

definition brand_values_origin :: "nat \<Rightarrow> int \<times> int" where
  "brand_values_origin i =
     (let card_w = Inches 5.8; card_h = Inches 2.3;
          col = i mod 2;
          row = i div 2;
          x = Inches 0.8 + int col * (card_w + Inches 0.3);
          y = Inches 1.65 + int row * (card_h + Inches 0.25)
      in (x, y))"

definition brand_value_card :: "nat \<Rightarrow> string \<times> string \<times> rgb \<times> string \<Rightarrow> shape list" where
  "brand_value_card i v =
     (case v of (title, desc, color, icon) \<Rightarrow>
        (let card_w = Inches 5.8; card_h = Inches 2.3;
             x = fst (brand_values_origin i); y = snd (brand_values_origin i)
         in [with_line BORDER (Pt 0.5) (add_shape_with_fill x y card_w card_h WHITE RECTANGLE),
             add_shape_with_fill x y card_w (Pt 5) color RECTANGLE,
             add_shape_with_fill (x + Inches 0.3) (y + Inches 0.3) (Inches 0.7) (Inches 0.7)
               color OVAL,
             add_textbox (x + Inches 1.2) (y + Inches 0.35) (Inches 4) (Inches 0.4)
               title 22 True False NAVY_DARK LEFT,
             add_textbox (x + Inches 0.3) (y + Inches 1.15) (card_w - Inches 0.6) (Inches 0.9)
               desc 13 False False TEXT_GRAY LEFT]))"

definition brand_value_cards :: "(string \<times> string \<times> rgb \<times> string) list \<Rightarrow> shape list list" where
  "brand_value_cards vs = map (\<lambda>(i, v). brand_value_card i v) (enumerate 0 vs)"

text \<open>
  Slide 7, the UI-effects loop of \<^verbatim>\<open>build_buttons_ui_slide\<close>: \<^verbatim>\<open>col = i % 2;
  row = i // 2; x = Inches(0.8) + col * Inches(6.3); y = Inches(3.7) + row * Inches(1.55)\<close>.
\<close>

definition effects_origin :: "nat \<Rightarrow> int \<times> int" where
  "effects_origin i =
     (let col = i mod 2;
          row = i div 2;
          x = Inches 0.8 + int col * Inches 6.3;
          y = Inches 3.7 + int row * Inches 1.55
      in (x, y))"

definition effect_card :: "nat \<Rightarrow> string \<times> string \<times> string \<Rightarrow> shape list" where
  "effect_card i e =
     (case e of (title, css, usage) \<Rightarrow>
        (let x = fst (effects_origin i); y = snd (effects_origin i)
         in [with_line BORDER (Pt 0.5)
               (add_shape_with_fill x y (Inches 5.9) (Inches 1.35) WHITE RECTANGLE),
             add_shape_with_fill x y (Inches 5.9) (Pt 3) BLUE_PRIMARY RECTANGLE,
             add_textbox (x + Inches 0.2) (y + Inches 0.1) (Inches 2) (Inches 0.3)
               title 13 True False NAVY_DARK LEFT,
             add_textbox (x + Inches 0.2) (y + Inches 0.4) (Inches 3.2) (Inches 0.8)
               css 9 False False TEXT_GRAY LEFT,
             add_textbox (x + Inches 3.5) (y + Inches 0.4) (Inches 2.2) (Inches 0.8)
               (''Usage:'' @ [CHR 0x0A] @ usage) 10 False False BLUE_PRIMARY LEFT]))"

definition effect_cards :: "(string \<times> string \<times> string) list \<Rightarrow> shape list list" where
  "effect_cards es = map (\<lambda>(i, e). effect_card i e) (enumerate 0 es)"

text \<open>
  Slide 10, \<^verbatim>\<open>build_technical_slide\<close>: \<^verbatim>\<open>col = i % 3; row = i // 3;
  x = Inches(0.8) + col * (card_w + Inches(0.25)); y = Inches(1.65) + row * (card_h + Inches(0.25))\<close>.
\<close>

definition technical_origin :: "nat \<Rightarrow> int \<times> int" where
  "technical_origin i =
     (let card_w = Inches 3.7; card_h = Inches 2.1;
          col = i mod 3;
          row = i div 3;
          x = Inches 0.8 + int col * (card_w + Inches 0.25);
          y = Inches 1.65 + int row * (card_h + Inches 0.25)
      in (x, y))"

definition spec_card :: "nat \<Rightarrow> string \<times> string \<times> rgb \<Rightarrow> shape list" where
  "spec_card i sp =
     (case sp of (title, desc, color) \<Rightarrow>
        (let card_w = Inches 3.7; card_h = Inches 2.1;
             x = fst (technical_origin i); y = snd (technical_origin i)
         in [with_line BORDER (Pt 0.5) (add_shape_with_fill x y card_w card_h WHITE RECTANGLE),
             add_shape_with_fill x y (Pt 5) card_h color RECTANGLE,
             add_textbox (x + Inches 0.3) (y + Inches 0.2) (card_w - Inches 0.5) (Inches 0.35)
               title 15 True False NAVY_DARK LEFT,
             add_textbox (x + Inches 0.3) (y + Inches 0.6) (card_w - Inches 0.5) (Inches 1.3)
               desc 12 False False TEXT_GRAY LEFT]))"

definition spec_cards :: "(string \<times> string \<times> rgb) list \<Rightarrow> shape list list" where
  "spec_cards sps = map (\<lambda>(i, sp). spec_card i sp) (enumerate 0 sps)"

text \<open>
  The grid contract in the words of the specification: item \<open>i\<close> goes to column
  \<open>i mod columns\<close> and row \<open>i div columns\<close>.
\<close>

definition grid_origin_spec ::
  "int \<Rightarrow> int \<Rightarrow> int \<Rightarrow> int \<Rightarrow> int \<Rightarrow> int \<Rightarrow> nat \<Rightarrow> nat \<Rightarrow> int \<times> int" where
  "grid_origin_spec originX originY cellWidth cellHeight gutterX gutterY columns i =
     (originX + int (i mod columns) * (cellWidth + gutterX),
      originY + int (i div columns) * (cellHeight + gutterY))"

subsection \<open>Slide 1 and the slides without a grid\<close>

text \<open>Slide 1, the cover. \<open>month_year\<close> is what \<^verbatim>\<open>datetime.now().strftime('%B %Y')\<close> returns.\<close>

definition build_title_slide :: "bool \<Rightarrow> string \<Rightarrow> error + slide" where
  "build_title_slide logo_file month_year =
     make_slide NAVY_DARK
       ([ok
           [add_shape_with_fill (Inches 0) (Inches 4.5) (Inches 6.667) (Pt 5) BLUE_PRIMARY
              RECTANGLE,
            add_shape_with_fill (Inches 6.667) (Inches 4.5) (Inches 6.666) (Pt 5) LOGO_GOLD
              RECTANGLE],
         (if logo_file then single (add_picture logo_file (Inches 3.8) (Inches 0.6) (Inches 5.5))
          else Inr []),
         ok
           [add_textbox (Inches 1) (Inches 4.7) (Inches 11.333) (Inches 0.8) ''Brand Kit'' 40
              True False WHITE CENTER,
            add_textbox (Inches 1) (Inches 5.4) (Inches 11.333) (Inches 0.6)
              ''Visual Identity & Brand Guidelines'' 20 False False BLUE_LIGHT CENTER,
            add_textbox (Inches 1) (Inches 6.1) (Inches 11.333) (Inches 0.4) (''Version 1.0  ''
              @ bullet @ ''  '' @ month_year @ ''  '' @ bullet @ ''  www.credsuvidha.com'') 11
              False True TEXT_MUTED CENTER,
            add_shape_with_fill (Inches 0) (Inches 7.2) (Inches 13.333) (Inches 0.3) BLUE_PRIMARY
              RECTANGLE]])"

subsection \<open>Slide 2: brand overview\<close>

definition stats :: "(string \<times> string \<times> rgb) list" where
  "stats =
     [(''500+ Cr'', ''Loans Disbursed'', BLUE_PRIMARY),
      (''10,000+'', ''Happy Customers'', LOGO_GOLD),
      (''50+'', ''Banking Partners'', EMERALD),
      (''24/7'', ''Expert Support'', ACCENT_PRI)]"

text \<open>The body of the loop over \<^verbatim>\<open>enumerate(stats)\<close>: one row of cards.\<close>

definition stats_item :: "nat \<Rightarrow> string \<times> string \<times> rgb \<Rightarrow> shape list" where
  "stats_item i v =
     (case v of (number, label, color) \<Rightarrow>
        (let card_width = Inches 2.6;
             card_height = Inches 1.5;
             start_x = Inches 0.8;
             spacing = Inches 0.2;
             card_y = Inches 3.3;
             x = start_x + int i * (card_width + spacing)
         in
            [with_line BORDER (Pt 0.5) (add_shape_with_fill x card_y card_width card_height WHITE
               RECTANGLE),
             add_shape_with_fill x card_y card_width (Pt 4) color RECTANGLE,
             add_textbox x (card_y + Inches 0.2) card_width (Inches 0.6) number 28 True False
               color CENTER,
             add_textbox x (card_y + Inches 0.85) card_width (Inches 0.4) label 12 False False
               TEXT_GRAY CENTER]))"

text \<open>The tagline box is built by hand in the source: one centred paragraph of two runs.\<close>

definition build_brand_overview :: "bool \<Rightarrow> error + slide" where
  "build_brand_overview logo_file =
     make_slide BG_ALT
       (frame_steps logo_file BLUE_PRIMARY (Pt 4) 2 @
        [ok
           [add_textbox (Inches 0.8) (Inches 0.5) (Inches 8) (Inches 0.7) ''Brand Overview'' 32
              True False NAVY_DARK LEFT,
            with_line BLUE_PRIMARY (Pt 1) (add_shape_with_fill (Inches 0.8) (Inches 1.4)
              (Inches 11.7) (Inches 1.0) BLUE_TINT RECTANGLE),
            add_textbox (Inches 1.2) (Inches 1.5) (Inches 11) (Inches 0.8) ([CHR 0x22]
              @ ''Smart Financial Solutions for a Better Tomorrow'' @ [CHR 0x22]) 22 True False
              NAVY_DARK CENTER],
         ok [TextBox (Inches 0.8) (Inches 2.5) (Inches 11.7) (Inches 0.5)
               [(CENTER, [set_font ''Trusted Partner. '' 18 True False NAVY_DARK,
                          set_font ''Swift Solutions.'' 18 True False LOGO_GOLD])]],
         ok (concat (map (\<lambda>(i, v). stats_item i v) (enumerate 0 stats))),
         ok
           [add_textbox (Inches 0.8) (Inches 5.2) (Inches 11.7) (Inches 1.0)
              (''CredSuvidha is a modern financial services facilitator ''
              @ ''providing smart solutions across loans, credit cards, and ''
              @ ''insurance. We partner with 50+ banks to offer the best rates ''
              @ ''and fastest approvals for every Indian customer.'') 13 False False TEXT_GRAY
              CENTER,
            add_shape_with_fill (Inches 5.0) (Inches 6.3) (Inches 3.3) (Inches 0.35) BLUE_PRIMARY
              ROUNDED_RECTANGLE,
            add_textbox (Inches 5.0) (Inches 6.32) (Inches 3.3) (Inches 0.3)
              ''Financial Services (Fintech)'' 11 True False WHITE CENTER]])"

subsection \<open>Slide 3: logo\<close>

definition elements :: "(string \<times> string) list" where
  "elements =
     [(''Symbol'', ''Interlocking C (navy) & S (gold) with upward arrow''),
      (''Wordmark'', [CHR 0x22] @ ''CREDSUVIDHA.COM'' @ [CHR 0x22] @ '' in navy blue uppercase''),
      (''Tagline'', [CHR 0x22] @ ''TRUSTED PARTNER. SWIFT SOLUTIONS.'' @ [CHR 0x22]
        @ '' in gold''),
      (''Min Size'', ''120px wide (digital) / 30mm (print)'')]"

text \<open>The rows of the logo-elements list.\<close>

definition elements_item :: "nat \<Rightarrow> string \<times> string \<Rightarrow> shape list" where
  "elements_item i v =
     (case v of (label, desc) \<Rightarrow>
        (let y = Inches 5.25 + int i * Inches 0.35
         in
            [add_textbox (Inches 1.0) y (Inches 1.5) (Inches 0.3) (black_circle @ '' '' @ label
               @ '':'') 11 True False BLUE_PRIMARY LEFT,
             add_textbox (Inches 2.6) y (Inches 4.5) (Inches 0.3) desc 11 False False TEXT_DARK
               LEFT]))"

definition dos :: "string list" where
  "dos =
     [''Use on white, cream, or light backgrounds'',
      ''Use inverted version on dark backgrounds'',
      ''Maintain proportions when scaling'']"

text \<open>The rows of the "Do" list.\<close>

definition dos_item :: "nat \<Rightarrow> string \<Rightarrow> shape list" where
  "dos_item i item =
      [add_textbox (Inches 7.7) (Inches 5.3 + int i * Inches 0.32) (Inches 5) (Inches 0.3)
         (black_circle @ ''  '' @ item) 10 False False TEXT_DARK LEFT]"

definition donts :: "string list" where
  "donts =
     [''Stretch or distort the logo'',
      ''Change the logo colors'',
      ''Place on busy backgrounds'']"

text \<open>The rows of the "Don't" list.\<close>

definition donts_item :: "nat \<Rightarrow> string \<Rightarrow> shape list" where
  "donts_item i item =
      [add_textbox (Inches 10.4) (Inches 5.3 + int i * Inches 0.32) (Inches 3) (Inches 0.3)
         (black_circle @ ''  '' @ item) 10 False False TEXT_DARK LEFT]"

text \<open>The logo showcase (two cards, each with the picture and a caption) is drawn only when the logo file exists.\<close>

definition build_logo_slide :: "bool \<Rightarrow> error + slide" where
  "build_logo_slide logo_file =
     make_slide BG_ALT
       (frame_steps logo_file BLUE_PRIMARY (Pt 4) 3 @
        [ok
           [add_textbox (Inches 0.8) (Inches 0.5) (Inches 8) (Inches 0.7) ''Logo'' 32 True False
              NAVY_DARK LEFT,
            add_textbox (Inches 0.8) (Inches 1.1) (Inches 11.7) (Inches 0.5)
              (''Interlocking C and S letterforms with an upward growth arrow '' @ em_dash
              @ '' symbolizing financial progress and partnership.'') 13 False False TEXT_GRAY
              LEFT],
         (if logo_file
          then run_steps
            [ok
               [with_line BORDER (Pt 0.5) (add_shape_with_fill (Inches 0.8) (Inches 1.8)
                  (Inches 5.4) (Inches 2.8) WHITE RECTANGLE)],
             single (add_picture logo_file (Inches 1.5) (Inches 2.0) (Inches 4.0)),
             ok
               [add_textbox (Inches 0.8) (Inches 4.3) (Inches 5.4) (Inches 0.3) (''Primary ''
                  @ em_dash @ '' Light Background'') 10 False False TEXT_MUTED CENTER,
                with_line BORDER (Pt 0.5) (add_shape_with_fill (Inches 6.5) (Inches 1.8)
                  (Inches 5.9) (Inches 2.8) LOGO_BG RECTANGLE)],
             single (add_picture logo_file (Inches 7.4) (Inches 2.0) (Inches 4.0)),
             ok
               [add_textbox (Inches 6.5) (Inches 4.3) (Inches 5.9) (Inches 0.3)
                  (''On Brand Cream '' @ em_dash @ '' #FAF6F1'') 10 False False TEXT_MUTED CENTER]]
          else Inr []),
         ok
           [add_textbox (Inches 0.8) (Inches 4.85) (Inches 4) (Inches 0.4) ''Logo Elements'' 16
              True False NAVY_DARK LEFT],
         ok (concat (map (\<lambda>(i, v). elements_item i v) (enumerate 0 elements))),
         ok
           [add_textbox (Inches 7.5) (Inches 4.85) (Inches 2.5) (Inches 0.4) (check_mark
              @ ''  Do'') 16 True False EMERALD_DK LEFT],
         ok (concat (map (\<lambda>(i, v). dos_item i v) (enumerate 0 dos))),
         ok
           [add_textbox (Inches 10.2) (Inches 4.85) (Inches 2.5) (Inches 0.4) (ballot_x
              @ ''  Don'' @ [CHR 0x27] @ ''t'') 16 True False (RGBColor 0xDC 0x26 0x26) LEFT],
         ok (concat (map (\<lambda>(i, v). donts_item i v) (enumerate 0 donts)))])"

subsection \<open>Slide 4: colour palette\<close>

definition brand_blues :: "(string \<times> string) list" where
  "brand_blues =
     [(''#142857'', ''950''),
      (''#193f8f'', ''900''),
      (''#1747b6'', ''800''),
      (''#1458e1'', ''700''),
      (''#1a6ef5'', ''600'' @ star),
      (''#338dff'', ''500''),
      (''#59b0ff'', ''400''),
      (''#8ecdff'', ''300''),
      (''#bce0ff'', ''200''),
      (''#eef7ff'', ''50'')]"

text \<open>The brand-blue swatches: the caption shows \<^verbatim>\<open>hex_code.upper()\<close>.\<close>

definition brand_blues_item :: "nat \<Rightarrow> string \<times> string \<Rightarrow> error + shape list" where
  "brand_blues_item i v =
     (case v of (hex_code, label) \<Rightarrow>
        (let sw = Inches 1.15;
             sh = Inches 0.65;
             sx = Inches 0.8;
             sy = Inches 1.95;
             x = sx + int i * (sw + Inches 0.08)
         in case parse_rgb hex_code of
              Inl e \<Rightarrow> Inl e
            | Inr c \<Rightarrow>
                Inr
                  [with_line BORDER (Pt 0.5) (add_shape_with_fill x sy sw sh c RECTANGLE),
                   add_textbox x (sy + sh + Pt 2) sw (Inches 0.2) label 8 True False TEXT_GRAY
                     CENTER,
                   add_textbox x (sy + sh + Inches 0.18) sw (Inches 0.2) (upper hex_code) 7 False
                     False TEXT_MUTED CENTER]))"

definition logo_colors :: "(string \<times> string) list" where
  "logo_colors =
     [(''#1B3A5C'', ''Logo Navy''),
      (''#C5961E'', ''Logo Gold''),
      (''#FAF6F1'', ''Logo BG'')]"

text \<open>The logo-colour swatches: the caption shows the hex string as written.\<close>

definition logo_colors_item :: "nat \<Rightarrow> string \<times> string \<Rightarrow> error + shape list" where
  "logo_colors_item i v =
     (case v of (hex_code, label) \<Rightarrow>
        (let x = Inches 0.8 + int i * Inches 2.5
         in case parse_rgb hex_code of
              Inl e \<Rightarrow> Inl e
            | Inr c \<Rightarrow>
                Inr
                  [with_line BORDER (Pt 0.5) (add_shape_with_fill x (Inches 3.4) (Inches 2.2)
                     (Inches 0.55) c RECTANGLE),
                   add_textbox x (Inches 3.98) (Inches 2.2) (Inches 0.3) (label @ ''  ''
                     @ hex_code) 9 False False TEXT_GRAY CENTER]))"

definition accent_colors :: "(string \<times> string) list" where
  "accent_colors =
     [(''#c2410c'', ''700''),
      (''#ea580c'', ''600''),
      (''#f97316'', ''500'' @ star),
      (''#fb923c'', ''400''),
      (''#fdba74'', ''300''),
      (''#fff7ed'', ''50'')]"

text \<open>The accent swatches.\<close>

definition accent_colors_item :: "nat \<Rightarrow> string \<times> string \<Rightarrow> error + shape list" where
  "accent_colors_item i v =
     (case v of (hex_code, label) \<Rightarrow>
        (let x = Inches 0.8 + int i * (Inches 2.0 + Inches 0.08)
         in case parse_rgb hex_code of
              Inl e \<Rightarrow> Inl e
            | Inr c \<Rightarrow>
                Inr
                  [with_line BORDER (Pt 0.5) (add_shape_with_fill x (Inches 4.8) (Inches 2.0)
                     (Inches 0.55) c RECTANGLE),
                   add_textbox x (Inches 5.38) (Inches 2.0) (Inches 0.25) (label @ ''  ''
                     @ upper hex_code) 8 False False TEXT_GRAY CENTER]))"

definition emerald_colors :: "(string \<times> string) list" where
  "emerald_colors =
     [(''#059669'', ''600''),
      (''#10b981'', ''500''),
      (''#34d399'', ''400''),
      (''#ecfdf5'', ''50'')]"

text \<open>The emerald swatches.\<close>

definition emerald_colors_item :: "nat \<Rightarrow> string \<times> string \<Rightarrow> error + shape list" where
  "emerald_colors_item i v =
     (case v of (hex_code, label) \<Rightarrow>
        (let x = Inches 0.8 + int i * Inches 2.5
         in case parse_rgb hex_code of
              Inl e \<Rightarrow> Inl e
            | Inr c \<Rightarrow>
                Inr
                  [with_line BORDER (Pt 0.5) (add_shape_with_fill x (Inches 6.1) (Inches 2.2)
                     (Inches 0.5) c RECTANGLE),
                   add_textbox x (Inches 6.63) (Inches 2.2) (Inches 0.25) (label @ ''  ''
                     @ upper hex_code) 8 False False TEXT_GRAY CENTER]))"

text \<open>A swatch loop raises at the first colour string it cannot read, and the slide with it.\<close>

definition build_color_palette_slide :: "bool \<Rightarrow> error + slide" where
  "build_color_palette_slide logo_file =
     make_slide BG_ALT
       (frame_steps logo_file BLUE_PRIMARY (Pt 4) 4 @
        [ok
           [add_textbox (Inches 0.8) (Inches 0.5) (Inches 8) (Inches 0.7) ''Color Palette'' 32
              True False NAVY_DARK LEFT,
            add_textbox (Inches 0.8) (Inches 1.1) (Inches 11.7) (Inches 0.4)
              (''Built around trust (navy blue), warmth (gold/amber), energy ''
              @ ''(orange), and growth (emerald green).'') 13 False False TEXT_GRAY LEFT,
            add_textbox (Inches 0.8) (Inches 1.6) (Inches 3) (Inches 0.3) (''Primary '' @ em_dash
              @ '' Brand Blue'') 14 True False NAVY_DARK LEFT],
         run_steps (map (\<lambda>(i, v). brand_blues_item i v) (enumerate 0 brand_blues)),
         ok
           [add_textbox (Inches 0.8) (Inches 3.1) (Inches 4) (Inches 0.3) ''Logo Colors'' 14 True
              False NAVY_DARK LEFT],
         run_steps (map (\<lambda>(i, v). logo_colors_item i v) (enumerate 0 logo_colors)),
         ok
           [add_textbox (Inches 0.8) (Inches 4.45) (Inches 4) (Inches 0.3) (''Accent '' @ em_dash
              @ '' Orange'') 14 True False NAVY_DARK LEFT],
         run_steps (map (\<lambda>(i, v). accent_colors_item i v) (enumerate 0 accent_colors)),
         ok
           [add_textbox (Inches 0.8) (Inches 5.8) (Inches 4) (Inches 0.3) (''Success '' @ em_dash
              @ '' Emerald Green'') 14 True False NAVY_DARK LEFT],
         run_steps (map (\<lambda>(i, v). emerald_colors_item i v) (enumerate 0 emerald_colors))])"

subsection \<open>Slide 6: typography\<close>

definition weights :: "(string \<times> bool) list" where
  "weights =
     [(''Light 300'', False),
      (''Regular 400'', False),
      (''Medium 500'', False),
      (''SemiBold 600'', True),
      (''Bold 700'', True),
      (''ExtraBold 800'', True)]"

text \<open>The weight samples.\<close>

definition weights_item :: "nat \<Rightarrow> string \<times> bool \<Rightarrow> shape list" where
  "weights_item i v =
     (case v of (weight, bold) \<Rightarrow>
        (let y = Inches 2.55 + int i * Inches 0.35
         in
            [add_textbox (Inches 1.2) y (Inches 1.8) (Inches 0.3) weight 10 False False
               TEXT_MUTED LEFT,
             add_textbox (Inches 3.0) y (Inches 5) (Inches 0.3)
               ''Smart Financial Solutions for a Better Tomorrow'' 13 bold False TEXT_DARK LEFT]))"

definition scale_items :: "(string \<times> string \<times> string) list" where
  "scale_items =
     [(''Hero H1'', ''48-60px'', ''ExtraBold''),
      (''Section H2'', ''36-40px'', ''Bold''),
      (''Card H3'', ''20-24px'', ''SemiBold''),
      (''Body'', ''14-16px'', ''Regular''),
      (''Small/Label'', ''12-13px'', ''Medium''),
      (''Caption'', ''10-11px'', ''Medium, uppercase'')]"

text \<open>The rows of the type scale.\<close>

definition scale_items_item :: "nat \<Rightarrow> string \<times> string \<times> string \<Rightarrow> shape list" where
  "scale_items_item i v =
     (case v of (element, size_txt, weight) \<Rightarrow>
        (let y = Inches 2.2 + int i * Inches 0.52
         in
            [add_textbox (Inches 8.8) y (Inches 1.5) (Inches 0.25) element 11 True False
               BLUE_PRIMARY LEFT,
             add_textbox (Inches 10.3) y (Inches 1.0) (Inches 0.25) size_txt 10 False False
               TEXT_DARK LEFT,
             add_textbox (Inches 11.3) y (Inches 1.3) (Inches 0.25) weight 10 False False
               TEXT_GRAY LEFT]))"

text \<open>Slide 6.\<close>

definition build_typography_slide :: "bool \<Rightarrow> error + slide" where
  "build_typography_slide logo_file =
     make_slide BG_ALT
       (frame_steps logo_file BLUE_PRIMARY (Pt 4) 6 @
        [ok
           [add_textbox (Inches 0.8) (Inches 0.5) (Inches 8) (Inches 0.7) ''Typography'' 32 True
              False NAVY_DARK LEFT,
            add_textbox (Inches 0.8) (Inches 1.1) (Inches 11.7) (Inches 0.4)
              (''Dual typeface system '' @ em_dash
              @ '' clean sans-serif for body, elegant serif for display.'') 13 False False
              TEXT_GRAY LEFT,
            with_line BORDER (Pt 0.5) (add_shape_with_fill (Inches 0.8) (Inches 1.65)
              (Inches 7.5) (Inches 3.2) WHITE RECTANGLE),
            add_textbox (Inches 1.0) (Inches 1.75) (Inches 7) (Inches 0.4) (''Inter '' @ em_dash
              @ '' Primary Typeface (Sans-Serif)'') 18 True False BLUE_PRIMARY LEFT,
            add_textbox (Inches 1.0) (Inches 2.15) (Inches 7) (Inches 0.3)
              ''Body text, navigation, buttons, labels, all UI elements'' 11 False True TEXT_GRAY
              LEFT],
         ok (concat (map (\<lambda>(i, v). weights_item i v) (enumerate 0 weights))),
         ok
           [with_line BORDER (Pt 0.5) (add_shape_with_fill (Inches 0.8) (Inches 5.0) (Inches 7.5)
              (Inches 1.3) WHITE RECTANGLE),
            add_textbox (Inches 1.0) (Inches 5.1) (Inches 7) (Inches 0.4) (''Playfair Display ''
              @ em_dash @ '' Display Typeface (Serif)'') 18 True False BLUE_PRIMARY LEFT,
            add_textbox (Inches 1.0) (Inches 5.5) (Inches 7) (Inches 0.3)
              (''Hero headlines and special emphasis. Bold (700) and ExtraBold '' @ ''(800).'')
              11 False True TEXT_GRAY LEFT,
            add_textbox (Inches 1.0) (Inches 5.85) (Inches 7) (Inches 0.35)
              ''Trusted Partner. Swift Solutions.'' 20 True False NAVY_DARK LEFT,
            add_textbox (Inches 8.6) (Inches 1.65) (Inches 4) (Inches 0.4) ''Type Scale'' 18 True
              False NAVY_DARK LEFT],
         ok
           [with_line BORDER (Pt 0.5) (add_shape_with_fill (Inches 8.6) (Inches 2.1) (Inches 4.2)
              (Inches 3.4) WHITE RECTANGLE)],
         ok (concat (map (\<lambda>(i, v). scale_items_item i v) (enumerate 0 scale_items))),
         ok
           [add_textbox (Inches 8.6) (Inches 5.6) (Inches 4.2) (Inches 0.8) (''Google Fonts:''
              @ [CHR 0x0A] @ ''Inter: wght@300;400;500;600;700;800;900'' @ [CHR 0x0A]
              @ ''Playfair Display: wght@700;800'') 9 False False TEXT_MUTED LEFT]])"

subsection \<open>Slide 7: buttons and UI components\<close>

definition buttons :: "(string \<times> rgb \<times> rgb \<times> string) list" where
  "buttons =
     [(''Get Started '' @ rarrow, BLUE_PRIMARY, WHITE, ''Primary''),
      (''Explore Services'', WHITE, BLUE_PRIMARY, ''Secondary''),
      (''Apply Now'', ACCENT_PRI, WHITE, ''Accent''),
      (''Learn More'', NAVY_DARK, WHITE, ''Dark'')]"

text \<open>The button samples; a white button gets an outline (\<^verbatim>\<open>if bg_color == WHITE\<close>).\<close>

definition buttons_item :: "nat \<Rightarrow> string \<times> rgb \<times> rgb \<times> string \<Rightarrow> shape list" where
  "buttons_item i v =
     (case v of (txt, bg_color, text_color, label) \<Rightarrow>
        (let x = Inches 0.8 + int i * Inches 2.8;
             y = Inches 1.8;
             btn = add_shape_with_fill x y (Inches 2.4) (Inches 0.55) bg_color ROUNDED_RECTANGLE
         in
             [(if bg_color = WHITE then with_line BLUE_PRIMARY (Pt 2) btn else btn),
              add_textbox x (y + Pt 4) (Inches 2.4) (Inches 0.45) txt 13 True False text_color
                CENTER,
              add_textbox x (y + Inches 0.6) (Inches 2.4) (Inches 0.2) label 9 False False
                TEXT_MUTED CENTER]))"

definition effects :: "(string \<times> string \<times> string) list" where
  "effects =
     [(''Glass Morphism'', ''bg: rgba(255,255,255,0.08)'' @ [CHR 0x0A]
        @ ''backdrop-filter: blur(20px)'' @ [CHR 0x0A]
        @ ''border: 1px solid rgba(255,255,255,0.15)'', ''Hero stats, overlaid cards''),
      (''Card Hover'', ''transform: translateY(-8px)'' @ [CHR 0x0A]
        @ ''box-shadow: 0 25px 60px rgba(0,0,0,0.12)'', ''Service cards, feature cards''),
      (''Pulse Glow'', ''box-shadow: 0 0 20-40px'' @ [CHR 0x0A] @ ''rgba(26,110,245, 0.3-0.6)'',
        ''Active states, attention draw''),
      (''Scroll Reveal'', ''opacity: 0'' @ rarrow @ ''1'' @ [CHR 0x0A] @ ''translateY(30px)''
        @ rarrow @ ''0'' @ [CHR 0x0A] @ ''transition: 0.8s ease'',
        ''Section entrance animations'')]"

text \<open>Slide 7.\<close>

definition build_buttons_ui_slide :: "bool \<Rightarrow> error + slide" where
  "build_buttons_ui_slide logo_file =
     make_slide BG_ALT
       (frame_steps logo_file BLUE_PRIMARY (Pt 4) 7 @
        [ok
           [add_textbox (Inches 0.8) (Inches 0.5) (Inches 8) (Inches 0.7)
              ''Buttons & UI Components'' 32 True False NAVY_DARK LEFT,
            add_textbox (Inches 0.8) (Inches 1.3) (Inches 4) (Inches 0.4) ''Button Variants'' 18
              True False NAVY_DARK LEFT],
         ok (concat (map (\<lambda>(i, v). buttons_item i v) (enumerate 0 buttons))),
         ok
           [add_textbox (Inches 0.8) (Inches 2.7) (Inches 11) (Inches 0.3)
              (''Border-radius: 100px (pill)  '' @ bullet @ ''  Padding: 12px 28px  '' @ bullet
              @ ''  Font: Inter SemiBold 14px  '' @ bullet @ ''  Transition: 300ms'') 10 False
              True TEXT_MUTED LEFT,
            add_textbox (Inches 0.8) (Inches 3.2) (Inches 4) (Inches 0.4) ''UI Effects'' 18 True
              False NAVY_DARK LEFT],
         ok (concat (effect_cards effects))])"

subsection \<open>Slide 8: brand values\<close>

definition brand_values :: "(string \<times> string \<times> rgb \<times> string) list" where
  "brand_values =
     [(''Trust'', ''RBI regulated partners, IRDAI registered, ISO 27001 compliant. ''
        @ ''Security and compliance are at our core.'', BLUE_PRIMARY, shield_icon),
      (''Speed'', ''Swift paperless loan approvals. Quick turnaround powered by 50+ ''
        @ ''banking partners.'', LOGO_GOLD, bolt_icon),
      (''Expertise'', ''24/7 expert support. 500+ Cr loans disbursed. 10,000+ happy ''
        @ ''customers served.'', EMERALD, target_icon),
      (''Simplicity'', ''Clean, modern, and accessible. Making financial decisions easy ''
        @ ''for every Indian.'', ACCENT_PRI, sparkles_icon)]"

text \<open>Slide 8. The icon of a value is part of the data and is never drawn.\<close>

definition build_brand_values_slide :: "bool \<Rightarrow> error + slide" where
  "build_brand_values_slide logo_file =
     make_slide BG_ALT
       (frame_steps logo_file BLUE_PRIMARY (Pt 4) 8 @
        [ok
           [add_textbox (Inches 0.8) (Inches 0.5) (Inches 8) (Inches 0.7) ''Brand Values'' 32
              True False NAVY_DARK LEFT,
            add_textbox (Inches 0.8) (Inches 1.1) (Inches 11.7) (Inches 0.4)
              ''Four pillars that define everything we do at CredSuvidha.'' 13 False False
              TEXT_GRAY LEFT],
         ok (concat (brand_value_cards brand_values))])"

subsection \<open>Slide 9: contact and compliance\<close>

definition contacts :: "(string \<times> string) list" where
  "contacts =
     [(''Phone'', ''+91 93076 73391''),
      (''Email'', ''info@credsuvidha.com''),
      (''Website'', ''www.credsuvidha.com''),
      (''Social'', ''Facebook '' @ bullet @ '' Twitter/X '' @ bullet @ '' LinkedIn '' @ bullet
        @ '' Instagram'')]"

text \<open>The contact rows.\<close>

definition contacts_item :: "nat \<Rightarrow> string \<times> string \<Rightarrow> shape list" where
  "contacts_item i v =
     (case v of (label, value) \<Rightarrow>
        (let y = Inches 2.2 + int i * Inches 0.55
         in
            [add_textbox (Inches 1.4) y (Inches 1.5) (Inches 0.3) (label @ '':'') 13 True False
               BLUE_PRIMARY LEFT,
             add_textbox (Inches 3.0) y (Inches 3.5) (Inches 0.3) value 13 False False TEXT_DARK
               LEFT]))"

definition badges :: "(string \<times> string) list" where
  "badges =
     [(''RBI Regulated Partners'', ''All banking partners regulated by Reserve Bank of India''),
      (''IRDAI Registered'', ''Insurance products through IRDAI registered entities''),
      (''ISO 27001 Compliant'', ''Information security management system compliance'')]"

text \<open>The compliance badges.\<close>

definition badges_item :: "nat \<Rightarrow> string \<times> string \<Rightarrow> shape list" where
  "badges_item i v =
     (case v of (badge, desc) \<Rightarrow>
        (let y = Inches 2.2 + int i * Inches 0.75
         in
            [add_shape_with_fill (Inches 7.4) (y + Pt 2) (Inches 0.3) (Inches 0.3) EMERALD OVAL,
             add_textbox (Inches 7.4) (y + Pt 2) (Inches 0.3) (Inches 0.3) check_mark 10 True
               False WHITE CENTER,
             add_textbox (Inches 7.9) y (Inches 4.3) (Inches 0.3) badge 13 True False NAVY_DARK
               LEFT,
             add_textbox (Inches 7.9) (y + Inches 0.3) (Inches 4.3) (Inches 0.3) desc 10 False
               False TEXT_GRAY LEFT]))"

text \<open>Slide 9.\<close>

definition build_contact_compliance_slide :: "bool \<Rightarrow> error + slide" where
  "build_contact_compliance_slide logo_file =
     make_slide BG_ALT
       (frame_steps logo_file BLUE_PRIMARY (Pt 4) 9 @
        [ok
           [add_textbox (Inches 0.8) (Inches 0.5) (Inches 8) (Inches 0.7)
              ''Contact & Compliance'' 32 True False NAVY_DARK LEFT,
            with_line BORDER (Pt 0.5) (add_shape_with_fill (Inches 0.8) (Inches 1.4) (Inches 5.8)
              (Inches 3.5) WHITE RECTANGLE),
            add_shape_with_fill (Inches 0.8) (Inches 1.4) (Inches 5.8) (Pt 4) BLUE_PRIMARY
              RECTANGLE,
            add_textbox (Inches 1.2) (Inches 1.6) (Inches 5) (Inches 0.4) ''Contact Information''
              20 True False NAVY_DARK LEFT],
         ok (concat (map (\<lambda>(i, v). contacts_item i v) (enumerate 0 contacts))),
         ok
           [with_line BORDER (Pt 0.5) (add_shape_with_fill (Inches 7.0) (Inches 1.4) (Inches 5.5)
              (Inches 3.5) WHITE RECTANGLE),
            add_shape_with_fill (Inches 7.0) (Inches 1.4) (Inches 5.5) (Pt 4) EMERALD RECTANGLE,
            add_textbox (Inches 7.4) (Inches 1.6) (Inches 5) (Inches 0.4)
              ''Compliance & Certifications'' 20 True False NAVY_DARK LEFT],
         ok (concat (map (\<lambda>(i, v). badges_item i v) (enumerate 0 badges))),
         ok
           [with_line BLUE_PALE (Pt 0.5) (add_shape_with_fill (Inches 0.8) (Inches 5.2)
              (Inches 11.7) (Inches 0.8) BLUE_TINT RECTANGLE),
            add_textbox (Inches 1.0) (Inches 5.3) (Inches 11.3) (Inches 0.6)
              (''Disclaimer: CredSuvidha acts as a facilitator. All financial ''
              @ ''products are subject to respective institution policies. ''
              @ ''Interest rates may vary based on individual eligibility and ''
              @ ''market conditions.'') 10 False True TEXT_GRAY CENTER]])"

subsection \<open>Slide 10: technical specifications\<close>

definition tech_specs :: "(string \<times> string \<times> rgb) list" where
  "tech_specs =
     [(''CSS Framework'', ''Tailwind CSS via CDN'' @ [CHR 0x0A]
        @ ''(cdn.tailwindcss.com) with custom'' @ [CHR 0x0A] @ ''brand theme configuration'',
        BLUE_PRIMARY),
      (''Typography'', ''Google Fonts: Inter (300-900) +'' @ [CHR 0x0A]
        @ ''Playfair Display (700-800)'' @ [CHR 0x0A] @ ''Preconnected for performance'',
        LOGO_GOLD),
      (''JavaScript'', ''Vanilla JS '' @ em_dash @ '' scroll reveal,'' @ [CHR 0x0A]
        @ ''counter animation, mobile menu,'' @ [CHR 0x0A] @ ''smooth scroll, form handling'',
        EMERALD),
      (''Architecture'', ''Single-page HTML application'' @ [CHR 0x0A]
        @ ''No build step required'' @ [CHR 0x0A] @ ''All-in-one file deployment'', ACCENT_PRI),
      (''Hosting'', ''Netlify (static hosting)'' @ [CHR 0x0A]
        @ ''Custom domain: www.credsuvidha.com'' @ [CHR 0x0A] @ ''Git-based deployment'', NAVY),
      (''Version Control'', ''Git repository'' @ [CHR 0x0A] @ ''Pushed to remote'' @ [CHR 0x0A]
        @ ''Continuous deployment via Netlify'', BLUE_BRIGHT)]"

text \<open>Slide 10.\<close>

definition build_technical_slide :: "bool \<Rightarrow> error + slide" where
  "build_technical_slide logo_file =
     make_slide BG_ALT
       (frame_steps logo_file BLUE_PRIMARY (Pt 4) 10 @
        [ok
           [add_textbox (Inches 0.8) (Inches 0.5) (Inches 8) (Inches 0.7)
              ''Technical Specifications'' 32 True False NAVY_DARK LEFT,
            add_textbox (Inches 0.8) (Inches 1.1) (Inches 11.7) (Inches 0.4)
              (''Technology stack and dependencies powering the CredSuvidha '' @ ''website.'') 13
              False False TEXT_GRAY LEFT],
         ok (concat (spec_cards tech_specs)),
         ok
           [with_line BLUE_PALE (Pt 0.5) (add_shape_with_fill (Inches 0.8) (Inches 6.0)
              (Inches 11.7) (Inches 0.6) BLUE_TINT RECTANGLE),
            add_textbox (Inches 1.0) (Inches 6.05) (Inches 11.3) (Inches 0.5)
              (''Assets: logo.png '' @ bullet @ '' assets/images/logo.png '' @ bullet
              @ '' assets/brandkit/brand-guidelines.html '' @ bullet
              @ '' assets/brandkit/brand-tokens.json '' @ bullet
              @ '' assets/brandkit/CredSuvidha-BrandKit.pdf '' @ bullet
              @ '' assets/brandkit/CredSuvidha-BrandKit.pptx'') 9 False False TEXT_GRAY CENTER]])"

subsection \<open>Slide 11: summary\<close>

definition takeaways :: "(string \<times> string \<times> rgb) list" where
  "takeaways =
     [(''Logo'', ''Interlocking C&S with growth arrow '' @ em_dash
        @ '' navy + gold on light backgrounds'', BLUE_PRIMARY),
      (''Colors'', ''Primary #1A6EF5  '' @ bullet @ ''  Navy #142857  '' @ bullet
        @ ''  Accent #F97316  '' @ bullet @ ''  Emerald #10B981'', NAVY),
      (''Typography'', ''Inter (sans-serif) for everything  '' @ bullet
        @ ''  Playfair Display (serif) for display'', LOGO_GOLD),
      (''Buttons'', ''4 variants: Primary, Secondary, Accent, Dark '' @ em_dash
        @ '' all pill-shaped (100px radius)'', EMERALD),
      (''Values'', ''Trust, Speed, Expertise, Simplicity '' @ em_dash
        @ '' every decision guided by these pillars'', ACCENT_PRI),
      (''Compliance'', ''RBI Regulated  '' @ bullet @ ''  IRDAI Registered  '' @ bullet
        @ ''  ISO 27001 Compliant'', BLUE_PRIMARY),
      (''Tech Stack'', ''Tailwind CSS + Inter/Playfair fonts + Vanilla JS '' @ rarrow
        @ '' Netlify deployment'', NAVY)]"

text \<open>The takeaway rows.\<close>

definition takeaways_item :: "nat \<Rightarrow> string \<times> string \<times> rgb \<Rightarrow> shape list" where
  "takeaways_item i v =
     (case v of (label, desc, color) \<Rightarrow>
        (let y = Inches 1.4 + int i * Inches 0.72
         in
            [with_line BORDER (Pt 0.5) (add_shape_with_fill (Inches 0.8) y (Inches 11.7)
               (Inches 0.6) WHITE RECTANGLE),
             add_shape_with_fill (Inches 0.8) y (Pt 5) (Inches 0.6) color RECTANGLE,
             add_textbox (Inches 1.2) (y + Pt 4) (Inches 1.5) (Inches 0.4) (black_circle @ ''  ''
               @ label) 13 True False color LEFT,
             add_textbox (Inches 2.8) (y + Pt 4) (Inches 9.5) (Inches 0.4) desc 12 False False
               TEXT_DARK LEFT]))"

text \<open>Slide 11: \<^verbatim>\<open>add_accent_bar(slide, color=NAVY_DARK, height=Pt(5))\<close>.\<close>

definition build_summary_slide :: "bool \<Rightarrow> error + slide" where
  "build_summary_slide logo_file =
     make_slide BLUE_TINT
       (frame_steps logo_file NAVY_DARK (Pt 5) 11 @
        [ok
           [add_textbox (Inches 0.8) (Inches 0.5) (Inches 8) (Inches 0.7) ''Key Takeaways'' 32
              True False NAVY_DARK LEFT],
         ok (concat (map (\<lambda>(i, v). takeaways_item i v) (enumerate 0 takeaways))),
         ok
           [add_textbox (Inches 0.8) (Inches 6.5) (Inches 11.7) (Inches 0.35)
              (''This brand kit is a living document '' @ em_dash
              @ '' update as CredSuvidha evolves. Consistency builds trust.'') 12 True True NAVY
              CENTER]])"

subsection \<open>Slide 12: thank you\<close>

text \<open>The closing slide has a layout of its own: none of the four frame calls.\<close>

definition build_thankyou_slide :: "bool \<Rightarrow> error + slide" where
  "build_thankyou_slide logo_file =
     make_slide NAVY_DARK
       ([ok
           [add_shape_with_fill (Inches 0) (Inches 3.2) (Inches 6.667) (Pt 3) BLUE_PRIMARY
              RECTANGLE,
            add_shape_with_fill (Inches 6.667) (Inches 3.2) (Inches 6.666) (Pt 3) LOGO_GOLD
              RECTANGLE],
         (if logo_file then single (add_picture logo_file (Inches 4.2) (Inches 0.5) (Inches 5.0))
          else Inr []),
         ok
           [add_textbox (Inches 1) (Inches 3.5) (Inches 11.333) (Inches 0.9) ''Thank You'' 44
              True False WHITE CENTER,
            add_textbox (Inches 1) (Inches 4.5) (Inches 11.333) (Inches 0.5)
              (''+91 93076 73391  '' @ bullet @ ''  info@credsuvidha.com  '' @ bullet
              @ ''  www.credsuvidha.com'') 16 False False BLUE_LIGHT CENTER],
         ok [TextBox (Inches 1) (Inches 5.3) (Inches 11.333) (Inches 0.5)
               [(CENTER, [set_font ''Trusted Partner. '' 20 True False WHITE,
                          set_font ''Swift Solutions.'' 20 True False LOGO_GOLD])]],
         ok
           [add_textbox (Inches 1) (Inches 6.3) (Inches 11.333) (Inches 0.3) (copyright
              @ '' 2025 CredSuvidha. All rights reserved.'') 10 False False TEXT_MUTED CENTER,
            add_shape_with_fill (Inches 0) (Inches 7.2) (Inches 13.333) (Inches 0.3) BLUE_PRIMARY
              RECTANGLE]])"


subsection \<open>The deck\<close>

text \<open>Builders run in order; the first one that raises ends the build.\<close>

fun run_builders :: "(error + 'a) list \<Rightarrow> error + 'a list" where
  "run_builders [] = Inr []"
| "run_builders (b # bs) =
     (case b of
        Inl e \<Rightarrow> Inl e
      | Inr x \<Rightarrow> (case run_builders bs of Inl e \<Rightarrow> Inl e | Inr xs \<Rightarrow> Inr (x # xs)))"

text \<open>
  \<^verbatim>\<open>build_presentation\<close>: the twelve builders, then \<^verbatim>\<open>prs.save(OUTPUT_PATH)\<close>. The
  result \<open>Inr slides\<close> is the deck written to the output file; an error means that
  \<^verbatim>\<open>save\<close> was never reached. The script reads no token file.
\<close>

definition build_presentation :: "bool \<Rightarrow> string \<Rightarrow> error + slide list" where
  "build_presentation logo_file month_year =
     run_builders
       [build_title_slide logo_file month_year,
        build_brand_overview logo_file,
        build_logo_slide logo_file,
        build_color_palette_slide logo_file,
        build_gradients_slide logo_file,
        build_typography_slide logo_file,
        build_buttons_ui_slide logo_file,
        build_brand_values_slide logo_file,
        build_contact_compliance_slide logo_file,
        build_technical_slide logo_file,
        build_summary_slide logo_file,
        build_thankyou_slide logo_file]"

section \<open>The PDF generator (reportlab)\<close>

subsection \<open>Units, page and colours\<close>

text \<open>
  \<^verbatim>\<open>reportlab.lib.units\<close>: \<^verbatim>\<open>inch = 72.0\<close>, \<^verbatim>\<open>cm = inch / 2.54\<close>, \<^verbatim>\<open>mm = cm * 0.1\<close>;
  \<^verbatim>\<open>A4 = (210*mm, 297*mm)\<close>. Lengths are floats in the source and exact rationals here.
\<close>

definition inch :: rat where "inch = 72"
definition mm :: rat where "mm = inch / 2.54 * 0.1"
definition A4 :: "rat \<times> rat" where "A4 = (210 * mm, 297 * mm)"
definition PAGE_WIDTH :: rat where "PAGE_WIDTH = fst A4"
definition PAGE_HEIGHT :: rat where "PAGE_HEIGHT = snd A4"
definition MARGIN_LEFT :: rat where "MARGIN_LEFT = 0.75 * inch"
definition MARGIN_RIGHT :: rat where "MARGIN_RIGHT = 0.75 * inch"
definition MARGIN_TOP :: rat where "MARGIN_TOP = 0.9 * inch"
definition MARGIN_BOTTOM :: rat where "MARGIN_BOTTOM = 0.85 * inch"
definition CONTENT_WIDTH :: rat where "CONTENT_WIDTH = PAGE_WIDTH - MARGIN_LEFT - MARGIN_RIGHT"

text \<open>
  \<^verbatim>\<open>HexColor(s)\<close> on a string. The embedding reads the form of the specification's data
  model, \<^verbatim>\<open>#\<close> and six hexadecimal digits, into its three channels; any other string
  stands for the \<^verbatim>\<open>ValueError\<close> of a string that is no colour (reportlab also reads
  \<^verbatim>\<open>0x\<close> prefixes and eight digits, which the source never passes).
\<close>

definition HexColor :: "string \<Rightarrow> rgb option" where
  "HexColor val =
     (case val of
        [h, r1, r2, g1, g2, b1, b2] \<Rightarrow>
          (if h = CHR ''#''
           then (case (hex_byte [r1, r2], hex_byte [g1, g2], hex_byte [b1, b2]) of
                   (Some r, Some g, Some b) \<Rightarrow> Some (RGBColor r g b)
                 | _ \<Rightarrow> None)
           else None)
      | _ \<Rightarrow> None)"

subsection \<open>Gradient drawing\<close>

datatype pdf_shape =
    Rect rat rat rat rat rgb "rgb option" rat
  | String rat rat string string rat rgb

record drawing =
  drawing_width :: rat
  drawing_height :: rat
  contents :: "pdf_shape list"



fun rect_fill :: "pdf_shape \<Rightarrow> rgb" where
  "rect_fill (Rect x y w h f st sw) = f"
| "rect_fill (String x y t fn fs c) = c"

text \<open>
  The loop of \<^verbatim>\<open>create_gradient_drawing\<close>: \<^verbatim>\<open>for i, color in enumerate(colors):
  d.add(Rect(i * segment_w, 16, segment_w, height, fillColor=HexColor(color), ...))\<close>.
  It stops at the first colour string that \<^verbatim>\<open>HexColor\<close> rejects.
\<close>

fun gradient_rects :: "rat \<Rightarrow> rat \<Rightarrow> (nat \<times> string) list \<Rightarrow> pdf_shape list option" where
  "gradient_rects segment_w height [] = Some []"
| "gradient_rects segment_w height ((i, color) # rest) =
     (case HexColor color of
        None \<Rightarrow> None
      | Some c \<Rightarrow>
          (case gradient_rects segment_w height rest of
             None \<Rightarrow> None
           | Some rs \<Rightarrow>
               Some (Rect (of_nat i * segment_w) 16 segment_w height c None 0 # rs)))"

text \<open>
  \<^verbatim>\<open>w = width or CONTENT_WIDTH\<close> takes the default for \<^verbatim>\<open>None\<close> and for \<open>0\<close>;
  \<^verbatim>\<open>segment_w = w / len(colors)\<close> raises on an empty colour list.
\<close>

definition create_gradient_drawing ::
  "string list \<Rightarrow> string \<Rightarrow> rat option \<Rightarrow> rat \<Rightarrow> error + drawing" where
  "create_gradient_drawing colors label width height =
     (let w = (case width of None \<Rightarrow> CONTENT_WIDTH
                           | Some v \<Rightarrow> if v = 0 then CONTENT_WIDTH else v)
      in if length colors = 0 then Inl ZeroDivisionError
         else (let segment_w = w / of_nat (length colors)
               in case gradient_rects segment_w height (enumerate 0 colors) of
                    None \<Rightarrow> Inl ValueError
                  | Some rs \<Rightarrow>
                      Inr \<lparr>drawing_width = w, drawing_height = height + 16,
                           contents = rs @ [String 4 2 label ''Helvetica'' 7 TEXT_GRAY]\<rparr>))"

subsection \<open>Palette table\<close>

text \<open>
  A table cell holds a string, a paragraph (markup text and the name of its style), a
  drawing or an image (width, height, horizontal alignment).
\<close>

datatype cell =
    Str string
  | Para string string
  | Swatch drawing
  | Img rat rat string

text \<open>
  The \<^verbatim>\<open>TableStyle\<close> commands of the source, each with its start and stop cell
  \<open>(column, row)\<close>; negative indices count from the end.
\<close>

datatype style_cmd =
    FONTNAME "int \<times> int" "int \<times> int" string
  | FONTSIZE "int \<times> int" "int \<times> int" rat
  | TEXTCOLOR "int \<times> int" "int \<times> int" rgb
  | BACKGROUND "int \<times> int" "int \<times> int" rgb
  | ALIGN "int \<times> int" "int \<times> int" string
  | VALIGN "int \<times> int" "int \<times> int" string
  | TOPPADDING "int \<times> int" "int \<times> int" rat
  | BOTTOMPADDING "int \<times> int" "int \<times> int" rat
  | LEFTPADDING "int \<times> int" "int \<times> int" rat
  | RIGHTPADDING "int \<times> int" "int \<times> int" rat
  | GRID "int \<times> int" "int \<times> int" rat rgb
  | BOX "int \<times> int" "int \<times> int" rat rgb
  | LINEABOVE "int \<times> int" "int \<times> int" rat rgb
  | ROUNDEDCORNERS "rat list"
  | ROWBACKGROUNDS "int \<times> int" "int \<times> int" "rgb list"

record table =
  table_data :: "cell list list"
  colWidths :: "rat list"
  repeatRows :: nat
  table_style :: "style_cmd list"

definition EMERALD_LT :: rgb where "EMERALD_LT = RGBColor 0x34 0xD3 0x99"
definition GRID_GRAY :: rgb where "GRID_GRAY = RGBColor 0xD1 0xD5 0xDB"

text \<open>
  The loop of \<^verbatim>\<open>create_color_swatch_table\<close>: one row per triple, in order, holding
  the swatch drawing, the name, the hex string as it was passed, and the usage note.
  \<^verbatim>\<open>HexColor('#D1D5DB')\<close> is the constant \<open>GRID_GRAY\<close>.
\<close>

fun swatch_rows :: "rat \<Rightarrow> (string \<times> string \<times> string) list \<Rightarrow> cell list list option" where
  "swatch_rows swatch_size [] = Some []"
| "swatch_rows swatch_size ((name, hex_code, usage) # rest) =
     (case HexColor hex_code of
        None \<Rightarrow> None
      | Some c \<Rightarrow>
          (case swatch_rows swatch_size rest of
             None \<Rightarrow> None
           | Some rows \<Rightarrow>
               Some ([Swatch \<lparr>drawing_width = swatch_size + 4, drawing_height = swatch_size + 4,
                              contents = [Rect 2 2 swatch_size swatch_size c (Some GRID_GRAY) 0.5]\<rparr>,
                      Str name, Str hex_code, Str usage] # rows)))"

definition swatch_table_style :: "style_cmd list" where
  "swatch_table_style =
     [FONTNAME (0, 0) (-1, 0) ''Helvetica-Bold'',
      FONTSIZE (0, 0) (-1, 0) 9,
      TEXTCOLOR (0, 0) (-1, 0) WHITE,
      BACKGROUND (0, 0) (-1, 0) NAVY,
      ALIGN (0, 0) (-1, 0) ''CENTER'',
      FONTNAME (0, 1) (-1, -1) ''Helvetica'',
      FONTSIZE (0, 1) (-1, -1) 9,
      TEXTCOLOR (0, 1) (-1, -1) TEXT_DARK,
      VALIGN (0, 0) (-1, -1) ''MIDDLE'',
      TOPPADDING (0, 0) (-1, -1) 6,
      BOTTOMPADDING (0, 0) (-1, -1) 6,
      LEFTPADDING (0, 0) (-1, -1) 6,
      RIGHTPADDING (0, 0) (-1, -1) 6,
      GRID (0, 0) (-1, -1) 0.5 GRID_GRAY,
      ROWBACKGROUNDS (0, 1) (-1, -1) [WHITE, BLUE_TINT]]"

definition create_color_swatch_table ::
  "(string \<times> string \<times> string) list \<Rightarrow> rat \<Rightarrow> error + table" where
  "create_color_swatch_table colors_list swatch_size =
     (case swatch_rows swatch_size colors_list of
        None \<Rightarrow> Inl ValueError
      | Some rows \<Rightarrow>
          Inr \<lparr>table_data = [Str ''Swatch'', Str ''Name'', Str ''Hex Code'', Str ''Usage''] # rows,
               colWidths = [0.5 * inch, 1.8 * inch, 1.2 * inch, CONTENT_WIDTH - 3.5 * inch],
               repeatRows = 1,
               table_style = swatch_table_style\<rparr>)"

text \<open>
  How reportlab paints row backgrounds: the background commands are painted in the
  order of the style, so the last one that covers a row shows; \<^verbatim>\<open>ROWBACKGROUNDS\<close>
  gives row \<open>r\<close> of its range the colour \<open>colours[(r - start) % len(colours)]\<close>. A
  negative row index counts from the end of the table.
\<close>

definition resolve_index :: "nat \<Rightarrow> int \<Rightarrow> int" where
  "resolve_index n k = (if k < 0 then int n + k else k)"

fun cmd_row_background :: "nat \<Rightarrow> nat \<Rightarrow> style_cmd \<Rightarrow> rgb option" where
  "cmd_row_background n r (BACKGROUND (sc, sr) (ec, er) c) =
     (if resolve_index n sr \<le> int r \<and> int r \<le> resolve_index n er then Some c else None)"
| "cmd_row_background n r (ROWBACKGROUNDS (sc, sr) (ec, er) cs) =
     (if resolve_index n sr \<le> int r \<and> int r \<le> resolve_index n er \<and> cs \<noteq> []
      then Some (cs ! (nat (int r - resolve_index n sr) mod length cs))
      else None)"
| "cmd_row_background n r cmd = None"

fun painted_background :: "nat \<Rightarrow> nat \<Rightarrow> style_cmd list \<Rightarrow> rgb option \<Rightarrow> rgb option" where
  "painted_background n r [] shown = shown"
| "painted_background n r (cmd # cmds) shown =
     painted_background n r cmds
       (case cmd_row_background n r cmd of None \<Rightarrow> shown | Some c \<Rightarrow> Some c)"

definition row_background :: "table \<Rightarrow> nat \<Rightarrow> rgb option" where
  "row_background t r = painted_background (length (table_data t)) r (table_style t) None"

text \<open>The data rows of a palette table: everything below the header row.\<close>

definition data_rows :: "table \<Rightarrow> cell list list" where
  "data_rows t = tl (table_data t)"

subsection \<open>Page decorations\<close>

datatype canvas_op =
    SaveState
  | RestoreState
  | SetFillColor rgb
  | SetStrokeColor rgb
  | SetLineWidth rat
  | SetFont string rat
  | FillRect rat rat rat rat
  | FillRoundRect rat rat rat rat rat
  | DrawLine rat rat rat rat
  | DrawString rat rat string
  | DrawCentredString rat rat string
  | DrawRightString rat rat string
  | DrawImage rat rat rat rat

text \<open>
  \<^verbatim>\<open>c_obj.drawImage(LOGO_PATH, x, y, width=..., height=..., preserveAspectRatio=True,
  mask='auto')\<close> opens the file and raises when it is not there.
\<close>

definition drawImage :: "bool \<Rightarrow> rat \<Rightarrow> rat \<Rightarrow> rat \<Rightarrow> rat \<Rightarrow> error + canvas_op" where
  "drawImage logo_file x y width height =
     (if logo_file then Inr (DrawImage x y width height) else Inl FileNotFoundError)"

definition draw_cover_page :: "bool \<Rightarrow> string \<Rightarrow> error + canvas_op list" where
  "draw_cover_page logo_file month_year =
     (let w = fst A4; h = snd A4;
          stripe_y = h * 0.45;
          title_y = h * 0.68;
          badge_y = title_y - 65;
          info_y = h * 0.35
      in run_steps
           [ok [SaveState,
                SetFillColor NAVY_DARK,
                FillRect 0 (h * 0.45) w (h * 0.55),
                SetFillColor BLUE_PRIMARY,
                FillRect 0 stripe_y (w * 0.5) 4,
                SetFillColor LOGO_GOLD,
                FillRect (w * 0.5) stripe_y (w * 0.5) 4],
            (if logo_file
             then single (drawImage logo_file MARGIN_LEFT (h * 0.82) (2.5 * inch) (1.3 * inch))
             else Inr []),
            ok [SetFillColor WHITE,
                SetFont ''Helvetica-Bold'' 32,
                DrawString MARGIN_LEFT title_y ''Brand Kit'',
                SetFillColor BLUE_LIGHT,
                SetFont ''Helvetica'' 16,
                DrawString MARGIN_LEFT (title_y - 30) ''Visual Identity & Brand Guidelines'',
                SetFillColor BLUE_PRIMARY,
                FillRoundRect MARGIN_LEFT badge_y 120 22 4,
                SetFillColor WHITE,
                SetFont ''Helvetica-Bold'' 9,
                DrawString (MARGIN_LEFT + 12) (badge_y + 7) ''VERSION 1.0'',
                SetFillColor TEXT_GRAY,
                SetFont ''Helvetica'' 11,
                DrawString MARGIN_LEFT info_y ''Company: CredSuvidha'',
                DrawString MARGIN_LEFT (info_y - 20) (''Date: '' @ month_year),
                DrawString MARGIN_LEFT (info_y - 40) ''Domain: www.credsuvidha.com'',
                DrawString MARGIN_LEFT (info_y - 60) ''Industry: Financial Services (Fintech)'',
                SetFillColor LOGO_GOLD,
                SetFont ''Helvetica-Bold'' 14,
                DrawCentredString (w / 2) (h * 0.08) ''Trusted Partner. Swift Solutions.'',
                SetFillColor NAVY_DARK,
                FillRect 0 0 w 30,
                SetFillColor BLUE_LIGHT,
                SetFont ''Helvetica'' 7,
                DrawCentredString (w / 2) 11
                  (copyright @ '' 2025 CredSuvidha. All rights reserved. | www.credsuvidha.com''),
                RestoreState]])"

text \<open>\<open>page\<close> is \<^verbatim>\<open>doc.page\<close>, the number of the page being drawn.\<close>

definition draw_header_footer :: "bool \<Rightarrow> nat \<Rightarrow> error + canvas_op list" where
  "draw_header_footer logo_file page =
     (let w = fst A4; h = snd A4
      in run_steps
           [ok [SaveState,
                SetStrokeColor BLUE_PRIMARY,
                SetLineWidth 1.5,
                DrawLine MARGIN_LEFT (h - 0.55 * inch) (w / 2) (h - 0.55 * inch),
                SetStrokeColor LOGO_GOLD,
                DrawLine (w / 2) (h - 0.55 * inch) (w - MARGIN_RIGHT) (h - 0.55 * inch),
                SetFillColor TEXT_GRAY,
                SetFont ''Helvetica'' 8,
                DrawString MARGIN_LEFT (h - 0.48 * inch) ''CredSuvidha Brand Kit''],
            (if logo_file
             then single (drawImage logo_file (w - MARGIN_RIGHT - 1.0 * inch) (h - 0.53 * inch)
                            (0.95 * inch) (0.42 * inch))
             else Inr []),
            ok [SetFillColor NAVY_DARK,
                FillRect 0 0 w (0.4 * inch),
                SetFillColor BLUE_LIGHT,
                SetFont ''Helvetica'' 7,
                DrawString (0.3 * inch) (0.15 * inch) footer_tagline,
                SetFillColor LOGO_GOLD,
                DrawRightString (w - 0.3 * inch) (0.15 * inch) footer_domain,
                SetFillColor WHITE,
                DrawCentredString (w / 2) (0.15 * inch) (''Page '' @ str_nat page),
                RestoreState]])"

text \<open>
  \<^verbatim>\<open>doc.build(story, onFirstPage=draw_cover_page, onLaterPages=draw_header_footer)\<close>:
  the template calls the first function on page 1 and the second on every later page.
\<close>

definition page_decoration :: "bool \<Rightarrow> string \<Rightarrow> nat \<Rightarrow> error + canvas_op list" where
  "page_decoration logo_file month_year page =
     (if page = 1 then draw_cover_page logo_file month_year
      else draw_header_footer logo_file page)"

text \<open>The text a canvas operation draws, with the side it is anchored at.\<close>

fun op_text :: "canvas_op \<Rightarrow> (alignment \<times> string) option" where
  "op_text (DrawString x y t) = Some (LEFT, t)"
| "op_text (DrawCentredString x y t) = Some (CENTER, t)"
| "op_text (DrawRightString x y t) = Some (RIGHT, t)"
| "op_text other = None"

subsection \<open>The story\<close>

text \<open>
  The flowables \<^verbatim>\<open>build_pdf\<close> appends to its story. A paragraph is its markup text and
  the name of its style in the sheet of \<^verbatim>\<open>get_styles\<close>; a rule is
  \<^verbatim>\<open>HRFlowable(width, thickness, color, spaceAfter)\<close>.
\<close>

datatype flowable =
    PageBreak
  | Paragraph string string
  | Spacer rat rat
  | HRFlowable string rat rgb rat
  | TableF table
  | DrawingF drawing

text \<open>
  \<^verbatim>\<open>Image(LOGO_PATH, width=w, height=h)\<close> followed by \<^verbatim>\<open>.hAlign = a\<close>; the file is read
  when the document is built, and a missing file raises.
\<close>

definition Image :: "bool \<Rightarrow> rat \<Rightarrow> rat \<Rightarrow> string \<Rightarrow> error + cell" where
  "Image logo_file width height hAlign =
     (if logo_file then Inr (Img width height hAlign) else Inl FileNotFoundError)"

text \<open>\<^verbatim>\<open>story.append(create_color_swatch_table(colors))\<close>, with \<^verbatim>\<open>swatch_size=14\<close>.\<close>

definition table_step :: "error + table \<Rightarrow> error + flowable list" where
  "table_step r = (case r of Inl e \<Rightarrow> Inl e | Inr t \<Rightarrow> Inr [TableF t])"

text \<open>
  The body of the loop over \<^verbatim>\<open>gradients\<close>:
  \<^verbatim>\<open>story.append(create_gradient_drawing(colors, label)); story.append(Spacer(1, 10))\<close>.
\<close>

definition gradients_item :: "string list \<times> string \<Rightarrow> error + flowable list" where
  "gradients_item g =
     (case g of (colors, label) \<Rightarrow>
        (case create_gradient_drawing colors label None 40 of
           Inl e \<Rightarrow> Inl e
         | Inr d \<Rightarrow> Inr [DrawingF d, Spacer 1 10]))"

text \<open>
  The story in the order of the source, cut after each \<^verbatim>\<open>PageBreak\<close>. Every table of
  the story is built with \<^verbatim>\<open>Table(data, colWidths=...)\<close> and styled with
  \<^verbatim>\<open>setStyle(TableStyle([...]))\<close> before it is appended. Only the third part reads the
  logo file.
\<close>

definition pdf_values :: "(string \<times> string \<times> string) list" where
  "pdf_values =
     [(''Trust'', ''RBI regulated partners, IRDAI registered, ISO 27001 compliant. ''
        @ ''Security and compliance at our core.'', ''#1a6ef5''),
      (''Speed'', ''Swift paperless loan approvals. Quick turnaround powered by 50+ ''
        @ ''banking partners.'', ''#C5961E''),
      (''Expertise'', ''24/7 expert support. 500+ Cr loans disbursed. 10,000+ happy ''
        @ ''customers served.'', ''#10b981''),
      (''Simplicity'', ''Clean, modern, and accessible. Making financial decisions easy ''
        @ ''for every Indian.'', ''#f97316'')]"

text \<open>
  The body of the loop over \<^verbatim>\<open>values\<close>: a two-row table with a coloured line above
  (\<^verbatim>\<open>HexColor(color)\<close>, which raises on a string that is no colour) and a spacer.
\<close>

definition values_item :: "string \<times> string \<times> string \<Rightarrow> error + flowable list" where
  "values_item v =
     (case v of (title, desc, color) \<Rightarrow>
        (case HexColor color of
           None \<Rightarrow> Inl ValueError
         | Some c \<Rightarrow>
             Inr
                [TableF
                   \<lparr>table_data =
                       [[Para (''<font color='' @ [CHR 0x22] @ color @ [CHR 0x22] @ ''>''
                          @ black_circle @ ''</font>  <b>'' @ title @ ''</b>'') ''ValueTitle''],
                        [Para desc ''SmallText'']],
                    colWidths = [CONTENT_WIDTH],
                    repeatRows = 0,
                    table_style =
                       [BACKGROUND (0, 0) (-1, -1) WHITE,
                        TOPPADDING (0, 0) (0, 0) 8,
                        BOTTOMPADDING (0, -1) (-1, -1) 8,
                        LEFTPADDING (0, 0) (-1, -1) 12,
                        RIGHTPADDING (0, 0) (-1, -1) 12,
                        BOX (0, 0) (-1, -1) 0.5 BORDER,
                        LINEABOVE (0, 0) (-1, 0) 3 c]\<rparr>,
                 Spacer 1 6]))"

text \<open>
  The logo showcase of the story, under \<^verbatim>\<open>if os.path.exists(LOGO_PATH)\<close>: two
  captioned tables, each holding \<^verbatim>\<open>Image(LOGO_PATH, width=3.5 * inch, height=1.8 * inch)\<close>
  with \<^verbatim>\<open>hAlign = 'CENTER'\<close>. The image file is opened when the document is built.
\<close>

definition logo_showcase :: "bool \<Rightarrow> error + flowable list" where
  "logo_showcase logo_file =
     (if logo_file
      then (case Image logo_file (3.5 * inch) (1.8 * inch) ''CENTER'' of
              Inl e \<Rightarrow> Inl e
            | Inr logo_img \<Rightarrow>
                (case Image logo_file (3.5 * inch) (1.8 * inch) ''CENTER'' of
                   Inl e \<Rightarrow> Inl e
                 | Inr logo_img2 \<Rightarrow>
                     Inr
                  [Paragraph (''Primary '' @ em_dash @ '' Light Background'') ''SubSubHeader'',
                   TableF
                     \<lparr>table_data =
                         [[logo_img]],
                      colWidths = [CONTENT_WIDTH],
                      repeatRows = 0,
                      table_style =
                         [BACKGROUND (0, 0) (-1, -1) WHITE,
                          ALIGN (0, 0) (-1, -1) ''CENTER'',
                          TOPPADDING (0, 0) (-1, -1) 20,
                          BOTTOMPADDING (0, 0) (-1, -1) 20,
                          BOX (0, 0) (-1, -1) 1 BORDER]\<rparr>,
                   Spacer 1 12,
                   Paragraph (''On Brand Cream '' @ em_dash @ '' #FAF6F1'') ''SubSubHeader'',
                   TableF
                     \<lparr>table_data =
                         [[logo_img2]],
                      colWidths = [CONTENT_WIDTH],
                      repeatRows = 0,
                      table_style =
                         [BACKGROUND (0, 0) (-1, -1) LOGO_BG,
                          ALIGN (0, 0) (-1, -1) ''CENTER'',
                          TOPPADDING (0, 0) (-1, -1) 20,
                          BOTTOMPADDING (0, 0) (-1, -1) 20,
                          BOX (0, 0) (-1, -1) 1 BORDER]\<rparr>]))
      else Inr [])"

definition pdf_brand_blue_colors :: "(string \<times> string \<times> string) list" where
  "pdf_brand_blue_colors =
     [(''950 Navy Dark'', ''#142857'', ''Dark backgrounds, footers''),
      (''900 Navy'', ''#193f8f'', ''Deep accents''),
      (''800 Deep Blue'', ''#1747b6'', ''Strong emphasis''),
      (''700 Blue'', ''#1458e1'', ''Links, interactive''),
      (''600 Primary '' @ star, ''#1a6ef5'', ''Primary CTA, buttons, icons''),
      (''500 Bright'', ''#338dff'', ''Hover states, secondary CTA''),
      (''400 Light'', ''#59b0ff'', ''Decorative elements''),
      (''300 Lighter'', ''#8ecdff'', ''Subtle highlights''),
      (''200 Pale'', ''#bce0ff'', ''Light borders''),
      (''100 Wash'', ''#d9edff'', ''Subtle backgrounds''),
      (''50 Tint'', ''#eef7ff'', ''Page tint, badges'')]"

definition pdf_logo_colors :: "(string \<times> string \<times> string) list" where
  "pdf_logo_colors =
     [(''Logo Navy'', ''#1B3A5C'', ''C letterform, wordmark text''),
      (''Logo Gold'', ''#C5961E'', ''S letterform, tagline text''),
      (''Logo Background'', ''#FAF6F1'', ''Original logo background'')]"

definition pdf_accent_colors :: "(string \<times> string \<times> string) list" where
  "pdf_accent_colors =
     [(''700 Dark'', ''#c2410c'', ''Pressed state''),
      (''600 Medium'', ''#ea580c'', ''Hover state''),
      (''500 Primary '' @ star, ''#f97316'', ''Accent CTA, highlights''),
      (''400 Light'', ''#fb923c'', ''Soft accent''),
      (''300 Lighter'', ''#fdba74'', ''Decorative''),
      (''50 Tint'', ''#fff7ed'', ''Accent background'')]"

definition pdf_emerald_colors :: "(string \<times> string \<times> string) list" where
  "pdf_emerald_colors =
     [(''600 Dark'', ''#059669'', ''Success dark''),
      (''500 Primary'', ''#10b981'', ''Success indicators, positive values''),
      (''400 Light'', ''#34d399'', ''Ticker positive values''),
      (''50 Tint'', ''#ecfdf5'', ''Success background'')]"

definition pdf_neutral_colors :: "(string \<times> string \<times> string) list" where
  "pdf_neutral_colors =
     [(''Slate 900'', ''#0f172a'', ''Strongest text''),
      (''Text Primary'', ''#1e293b'', ''Body text''),
      (''Slate 700'', ''#334155'', ''Strong secondary''),
      (''Text Secondary'', ''#64748b'', ''Secondary text, captions''),
      (''Text Muted'', ''#94a3b8'', ''Muted text, placeholders''),
      (''Border'', ''#e2e8f0'', ''Borders, dividers''),
      (''Background Alt'', ''#f8fafc'', ''Alt section backgrounds''),
      (''White'', ''#ffffff'', ''Page backgrounds, cards'')]"

definition pdf_gradients :: "(string list \<times> string) list" where
  "pdf_gradients =
     [([''#1a6ef5'', ''#338dff''], ''Primary CTA: brand-600 '' @ rarrow @ '' brand-500''),
      ([''#142857'', ''#1a6ef5'', ''#338dff''], ''Hero / Header: navy '' @ rarrow
        @ '' brand-600 '' @ rarrow @ '' brand-500''),
      ([''#f97316'', ''#fb923c''], ''Accent CTA: accent-500 '' @ rarrow @ '' accent-400''),
      ([''#1a6ef5'', ''#338dff'', ''#f97316''], ''Gradient Text: brand-600 '' @ rarrow
        @ '' brand-500 '' @ rarrow @ '' accent-500''),
      ([''#059669'', ''#10b981''], ''Success: emerald-600 '' @ rarrow @ '' emerald-500''),
      ([''#1a6ef5'', ''#59b0ff''], ''Logo Badge: brand-600 '' @ rarrow @ '' brand-400'')]"

definition pdf_compliance_items :: "(string \<times> string) list" where
  "pdf_compliance_items =
     [(''RBI Regulated Partners'',
        ''All banking partners are regulated by the Reserve Bank of India''),
      (''IRDAI Registered'', ''Insurance products through IRDAI registered entities''),
      (''ISO 27001 Compliant'', ''Information security management system compliance'')]"

text \<open>The body of the loop over \<^verbatim>\<open>compliance_items\<close>.\<close>

definition compliance_item :: "string \<times> string \<Rightarrow> flowable list" where
  "compliance_item v =
     (case v of (badge, desc) \<Rightarrow>
        [TableF
           \<lparr>table_data =
               [[Para (''<font color='' @ [CHR 0x22] @ ''#059669'' @ [CHR 0x22] @ ''>''
                  @ check_mark @ ''</font>  <b>'' @ badge @ ''</b>'') ''BodyLeft''],
                [Para desc ''SmallText'']],
            colWidths = [CONTENT_WIDTH],
            repeatRows = 0,
            table_style =
               [BACKGROUND (0, 0) (-1, -1) (RGBColor 0xEC 0xFD 0xF5),
                TOPPADDING (0, 0) (0, 0) 8,
                BOTTOMPADDING (0, -1) (-1, -1) 8,
                LEFTPADDING (0, 0) (-1, -1) 12,
                BOX (0, 0) (-1, -1) 0.5 EMERALD_LT]\<rparr>,
         Spacer 1 4])"

definition story_part_1 :: "bool \<Rightarrow> (error + flowable list) list" where
  "story_part_1 logo_file =
     [ok
        [PageBreak]]"

definition story_part_2 :: "bool \<Rightarrow> (error + flowable list) list" where
  "story_part_2 logo_file =
     [ok
        [Paragraph ''Brand Overview'' ''SectionHeader'',
         HRFlowable ''100%'' 2 BLUE_PRIMARY 12,
         Paragraph (''CredSuvidha is a modern financial services facilitator ''
           @ ''providing smart financial solutions across loans, credit cards, ''
           @ ''and insurance. With 50+ banking partners and 10,000+ satisfied ''
           @ ''customers, we make financial decisions simple, transparent, and ''
           @ ''accessible for every Indian.'') ''BodyText'',
         Spacer 1 12,
         TableF
           \<lparr>table_data =
               [[Para (''Trusted Partner. <font color='' @ [CHR 0x22] @ ''#C5961E'' @ [CHR 0x22]
                  @ ''>Swift Solutions.</font>'') ''TaglineStyle'']],
            colWidths = [CONTENT_WIDTH],
            repeatRows = 0,
            table_style =
               [BACKGROUND (0, 0) (-1, -1) BLUE_TINT,
                ALIGN (0, 0) (-1, -1) ''CENTER'',
                TOPPADDING (0, 0) (-1, -1) 16,
                BOTTOMPADDING (0, 0) (-1, -1) 16,
                BOX (0, 0) (-1, -1) 1 BLUE_PRIMARY,
                ROUNDEDCORNERS [8, 8, 8, 8]]\<rparr>,
         Spacer 1 8,
         Paragraph (''Primary brand tagline '' @ em_dash @ '' used across all communications'')
           ''CaptionText'',
         Spacer 1 16,
         Paragraph ''Brand Values'' ''SubHeader''],
      run_steps (map values_item pdf_values),
      ok
        [Spacer 1 10,
         Paragraph ''Key Metrics'' ''SubHeader'',
         TableF
           \<lparr>table_data =
               [[Str ''500+ Cr'', Str ''10,000+'', Str ''50+'', Str ''24/7''],
                [Str ''Loans Disbursed'', Str ''Happy Customers'', Str ''Banking Partners'', Str
                  ''Expert Support'']],
            colWidths = replicate 4 (CONTENT_WIDTH / 4),
            repeatRows = 0,
            table_style =
               [FONTNAME (0, 0) (-1, 0) ''Helvetica-Bold'',
                FONTSIZE (0, 0) (-1, 0) 16,
                TEXTCOLOR (0, 0) (-1, 0) BLUE_PRIMARY,
                FONTNAME (0, 1) (-1, 1) ''Helvetica'',
                FONTSIZE (0, 1) (-1, 1) 9,
                TEXTCOLOR (0, 1) (-1, 1) TEXT_GRAY,
                ALIGN (0, 0) (-1, -1) ''CENTER'',
                VALIGN (0, 0) (-1, -1) ''MIDDLE'',
                TOPPADDING (0, 0) (-1, -1) 10,
                BOTTOMPADDING (0, 0) (-1, -1) 10,
                BACKGROUND (0, 0) (-1, -1) BLUE_TINT,
                BOX (0, 0) (-1, -1) 0.5 BLUE_PALE]\<rparr>,
         PageBreak]]"

definition story_part_3 :: "bool \<Rightarrow> (error + flowable list) list" where
  "story_part_3 logo_file =
     [ok
        [Paragraph ''Logo'' ''SectionHeader'',
         HRFlowable ''100%'' 2 BLUE_PRIMARY 12,
         Paragraph (''The CredSuvidha logo features interlocking C and S letterforms ''
           @ ''with an upward growth arrow, symbolizing financial progress and ''
           @ ''trusted partnership. The navy blue represents trust and ''
           @ ''stability, while the gold represents prosperity and value.'') ''BodyText'',
         Spacer 1 12],
      logo_showcase logo_file,
      ok
        [Spacer 1 12,
         Paragraph ''Logo Elements'' ''SubHeader'',
         TableF
           \<lparr>table_data =
               [[Str ''Element'', Str ''Description''],
                [Str ''Symbol'', Str (''Interlocking '' @ [CHR 0x22] @ ''C'' @ [CHR 0x22]
                  @ '' (navy blue) and '' @ [CHR 0x22] @ ''S'' @ [CHR 0x22]
                  @ '' (gold) with upward growth arrow'')],
                [Str ''Wordmark'', Str ([CHR 0x22] @ ''CREDSUVIDHA.COM'' @ [CHR 0x22]
                  @ '' in navy blue uppercase'')],
                [Str ''Tagline'', Str ([CHR 0x22] @ ''TRUSTED PARTNER. SWIFT SOLUTIONS.'' @ [CHR
                  0x22] @ '' in gold'')],
                [Str ''Min Size'', Str ''120px wide (digital) / 30mm (print)''],
                [Str ''Clear Space'', Str (''Equal to the height of the '' @ [CHR 0x22] @ ''C''
                  @ [CHR 0x22] @ '' around all sides'')]],
            colWidths = [1.5 * inch, CONTENT_WIDTH - 1.5 * inch],
            repeatRows = 0,
            table_style =
               [FONTNAME (0, 0) (-1, 0) ''Helvetica-Bold'',
                FONTSIZE (0, 0) (-1, 0) 9,
                TEXTCOLOR (0, 0) (-1, 0) WHITE,
                BACKGROUND (0, 0) (-1, 0) NAVY,
                FONTNAME (0, 1) (-1, -1) ''Helvetica'',
                FONTSIZE (0, 1) (-1, -1) 9,
                TEXTCOLOR (0, 1) (-1, -1) TEXT_DARK,
                FONTNAME (0, 1) (0, -1) ''Helvetica-Bold'',
                VALIGN (0, 0) (-1, -1) ''MIDDLE'',
                TOPPADDING (0, 0) (-1, -1) 6,
                BOTTOMPADDING (0, 0) (-1, -1) 6,
                LEFTPADDING (0, 0) (-1, -1) 8,
                GRID (0, 0) (-1, -1) 0.5 (RGBColor 0xD1 0xD5 0xDB),
                ROWBACKGROUNDS (0, 1) (-1, -1) [WHITE, BLUE_TINT]]\<rparr>,
         Spacer 1 14,
         Paragraph ''Usage Guidelines'' ''SubHeader'',
         TableF
           \<lparr>table_data =
               [[Str (''Do '' @ check_mark), Str (''Don'' @ [CHR 0x27] @ ''t '' @ ballot_x)],
                [Str ''Use on white, cream, or very light backgrounds'', Str (''Don'' @ [CHR
                  0x27] @ ''t stretch or distort the logo'')],
                [Str ''Use inverted (white) version on dark backgrounds'', Str (''Don'' @ [CHR
                  0x27] @ ''t change the logo colors'')],
                [Str ''Maintain proportions when scaling'', Str (''Don'' @ [CHR 0x27]
                  @ ''t place on busy or low-contrast backgrounds'')],
                [Str ''Keep minimum clear space around logo'', Str (''Don'' @ [CHR 0x27]
                  @ ''t add effects like drop shadows or outlines'')]],
            colWidths = replicate 2 (CONTENT_WIDTH / 2),
            repeatRows = 0,
            table_style =
               [FONTNAME (0, 0) (-1, 0) ''Helvetica-Bold'',
                FONTSIZE (0, 0) (-1, 0) 10,
                TEXTCOLOR (0, 0) (0, 0) (RGBColor 0x05 0x96 0x69),
                TEXTCOLOR (1, 0) (1, 0) (RGBColor 0xDC 0x26 0x26),
                BACKGROUND (0, 0) (-1, 0) (RGBColor 0xF1 0xF5 0xF9),
                FONTNAME (0, 1) (-1, -1) ''Helvetica'',
                FONTSIZE (0, 1) (-1, -1) 9,
                TEXTCOLOR (0, 1) (-1, -1) TEXT_DARK,
                VALIGN (0, 0) (-1, -1) ''TOP'',
                TOPPADDING (0, 0) (-1, -1) 6,
                BOTTOMPADDING (0, 0) (-1, -1) 6,
                LEFTPADDING (0, 0) (-1, -1) 8,
                GRID (0, 0) (-1, -1) 0.5 (RGBColor 0xD1 0xD5 0xDB),
                ROWBACKGROUNDS (0, 1) (-1, -1) [WHITE, RGBColor 0xFE 0xF2 0xF2]]\<rparr>,
         PageBreak]]"

definition story_part_4 :: "bool \<Rightarrow> (error + flowable list) list" where
  "story_part_4 logo_file =
     [ok
        [Paragraph ''Color Palette'' ''SectionHeader'',
         HRFlowable ''100%'' 2 BLUE_PRIMARY 12,
         Paragraph (''Our color system is built around trust (navy blue), warmth ''
           @ ''(gold/amber), energy (orange), and growth (emerald green).'') ''BodyText'',
         Spacer 1 8,
         Paragraph (''Primary '' @ em_dash @ '' Brand Blue'') ''SubHeader''],
      table_step (create_color_swatch_table pdf_brand_blue_colors 14),
      ok
        [Spacer 1 12,
         Paragraph ''Logo Colors (Extracted)'' ''SubHeader''],
      table_step (create_color_swatch_table pdf_logo_colors 14),
      ok
        [Spacer 1 12,
         Paragraph (''Accent '' @ em_dash @ '' Orange'') ''SubHeader''],
      table_step (create_color_swatch_table pdf_accent_colors 14),
      ok
        [PageBreak]]"

definition story_part_5 :: "bool \<Rightarrow> (error + flowable list) list" where
  "story_part_5 logo_file =
     [ok
        [Paragraph (''Success '' @ em_dash @ '' Emerald Green'') ''SubHeader''],
      table_step (create_color_swatch_table pdf_emerald_colors 14),
      ok
        [Spacer 1 12,
         Paragraph (''Neutrals '' @ em_dash @ '' Slate Grays'') ''SubHeader''],
      table_step (create_color_swatch_table pdf_neutral_colors 14),
      ok
        [PageBreak]]"

definition story_part_6 :: "bool \<Rightarrow> (error + flowable list) list" where
  "story_part_6 logo_file =
     [ok
        [Paragraph ''Gradients'' ''SectionHeader'',
         HRFlowable ''100%'' 2 BLUE_PRIMARY 12,
         Paragraph (''Signature gradients used across buttons, backgrounds, and ''
           @ ''accent elements.'') ''BodyText'',
         Spacer 1 10],
      run_steps (map gradients_item pdf_gradients),
      ok
        [Spacer 1 8,
         Paragraph ''CSS Specifications'' ''SubSubHeader'',
         TableF
           \<lparr>table_data =
               [[Str ''Name'', Str ''CSS Value''],
                [Str ''Primary CTA'', Str ''linear-gradient(135deg, #1a6ef5, #338dff)''],
                [Str ''Hero'', Str
                  ''linear-gradient(135deg, #142857 0%, #1a6ef5 50%, #338dff 100%)''],
                [Str ''Accent CTA'', Str ''linear-gradient(135deg, #f97316, #fb923c)''],
                [Str ''Gradient Text'', Str
                  ''linear-gradient(135deg, #1a6ef5 0%, #338dff 50%, #f97316 100%)''],
                [Str ''Success'', Str ''linear-gradient(135deg, #059669, #10b981)''],
                [Str ''Logo Badge'', Str ''linear-gradient(to bottom right, #1a6ef5, #59b0ff)'']],
            colWidths = [1.5 * inch, CONTENT_WIDTH - 1.5 * inch],
            repeatRows = 0,
            table_style =
               [FONTNAME (0, 0) (-1, 0) ''Helvetica-Bold'',
                FONTSIZE (0, 0) (-1, 0) 9,
                TEXTCOLOR (0, 0) (-1, 0) WHITE,
                BACKGROUND (0, 0) (-1, 0) NAVY,
                FONTNAME (0, 1) (0, -1) ''Helvetica-Bold'',
                FONTNAME (1, 1) (1, -1) ''Courier'',
                FONTSIZE (0, 1) (-1, -1) 8,
                TEXTCOLOR (0, 1) (-1, -1) TEXT_DARK,
                VALIGN (0, 0) (-1, -1) ''MIDDLE'',
                TOPPADDING (0, 0) (-1, -1) 5,
                BOTTOMPADDING (0, 0) (-1, -1) 5,
                LEFTPADDING (0, 0) (-1, -1) 8,
                GRID (0, 0) (-1, -1) 0.5 (RGBColor 0xD1 0xD5 0xDB),
                ROWBACKGROUNDS (0, 1) (-1, -1) [WHITE, BLUE_TINT]]\<rparr>,
         PageBreak]]"

definition story_part_7 :: "bool \<Rightarrow> (error + flowable list) list" where
  "story_part_7 logo_file =
     [ok
        [Paragraph ''Typography'' ''SectionHeader'',
         HRFlowable ''100%'' 2 BLUE_PRIMARY 12,
         Paragraph (''A dual typeface system combining clean sans-serif for body text ''
           @ ''with elegant serif for display elements.'') ''BodyText'',
         Spacer 1 8,
         Paragraph (''Inter '' @ em_dash @ '' Primary Typeface (Sans-Serif)'') ''SubHeader'',
         Paragraph (''Used for body text, navigation, buttons, labels, and all UI ''
           @ ''elements. Available weights: Light (300) through Black (900).'') ''SmallText'',
         Spacer 1 4,
         TableF
           \<lparr>table_data =
               [[Str ''Weight'', Str ''Size'', Str ''Usage''],
                [Str ''Light (300)'', Str em_dash, Str ''Subtle body text, descriptions''],
                [Str ''Regular (400)'', Str ''14-16px'', Str ''Body text, paragraphs''],
                [Str ''Medium (500)'', Str ''13-14px'', Str ''Navigation, labels, badges''],
                [Str ''SemiBold (600)'', Str ''14px'', Str ''Buttons, strong emphasis''],
                [Str ''Bold (700)'', Str ''20-40px'', Str ''Section headers, card titles''],
                [Str ''ExtraBold (800)'', Str ''48-60px'', Str ''Hero headlines, H1''],
                [Str ''Black (900)'', Str em_dash, Str ''Special emphasis only'']],
            colWidths = [1.5 * inch, 1.2 * inch, CONTENT_WIDTH - 2.7 * inch],
            repeatRows = 0,
            table_style =
               [FONTNAME (0, 0) (-1, 0) ''Helvetica-Bold'',
                FONTSIZE (0, 0) (-1, 0) 9,
                TEXTCOLOR (0, 0) (-1, 0) WHITE,
                BACKGROUND (0, 0) (-1, 0) NAVY,
                FONTNAME (0, 1) (-1, -1) ''Helvetica'',
                FONTSIZE (0, 1) (-1, -1) 9,
                FONTNAME (0, 1) (0, -1) ''Helvetica-Bold'',
                VALIGN (0, 0) (-1, -1) ''MIDDLE'',
                TOPPADDING (0, 0) (-1, -1) 5,
                BOTTOMPADDING (0, 0) (-1, -1) 5,
                LEFTPADDING (0, 0) (-1, -1) 8,
                GRID (0, 0) (-1, -1) 0.5 (RGBColor 0xD1 0xD5 0xDB),
                ROWBACKGROUNDS (0, 1) (-1, -1) [WHITE, BLUE_TINT]]\<rparr>,
         Spacer 1 14,
         Paragraph (''Playfair Display '' @ em_dash @ '' Display Typeface (Serif)'')
           ''SubHeader'',
         Paragraph (''Used sparingly for hero headlines and special emphasis. Conveys ''
           @ ''elegance and authority. Available in Bold (700) and ExtraBold '' @ ''(800).'')
           ''SmallText'',
         Spacer 1 10,
         Paragraph ''Type Scale'' ''SubHeader'',
         TableF
           \<lparr>table_data =
               [[Str ''Element'', Str ''Font'', Str ''Size'', Str ''Weight''],
                [Str ''Hero H1'', Str ''Inter'', Str ''48-60px'', Str ''ExtraBold (800)''],
                [Str ''Section H2'', Str ''Inter'', Str ''36-40px'', Str ''Bold (700)''],
                [Str ''Card H3'', Str ''Inter'', Str ''20-24px'', Str ''SemiBold (600)''],
                [Str ''Body'', Str ''Inter'', Str ''14-16px'', Str ''Regular (400)''],
                [Str ''Small / Label'', Str ''Inter'', Str ''12-13px'', Str ''Medium (500)''],
                [Str ''Caption'', Str ''Inter'', Str ''10-11px'', Str ''Medium, uppercase''],
                [Str ''Display'', Str ''Playfair Display'', Str ''36-60px'', Str
                  ''Bold/ExtraBold'']],
            colWidths = [1.5 * inch, 1.5 * inch, 1.3 * inch, CONTENT_WIDTH - 4.3 * inch],
            repeatRows = 0,
            table_style =
               [FONTNAME (0, 0) (-1, 0) ''Helvetica-Bold'',
                FONTSIZE (0, 0) (-1, 0) 9,
                TEXTCOLOR (0, 0) (-1, 0) WHITE,
                BACKGROUND (0, 0) (-1, 0) NAVY,
                FONTNAME (0, 1) (-1, -1) ''Helvetica'',
                FONTSIZE (0, 1) (-1, -1) 9,
                FONTNAME (0, 1) (0, -1) ''Helvetica-Bold'',
                VALIGN (0, 0) (-1, -1) ''MIDDLE'',
                TOPPADDING (0, 0) (-1, -1) 5,
                BOTTOMPADDING (0, 0) (-1, -1) 5,
                LEFTPADDING (0, 0) (-1, -1) 8,
                GRID (0, 0) (-1, -1) 0.5 (RGBColor 0xD1 0xD5 0xDB),
                ROWBACKGROUNDS (0, 1) (-1, -1) [WHITE, BLUE_TINT]]\<rparr>,
         Spacer 1 14,
         Paragraph ''Font Loading'' ''SubSubHeader'',
         Paragraph (''<font face='' @ [CHR 0x22] @ ''Courier'' @ [CHR 0x22] @ '' size='' @ [CHR
           0x22] @ ''8'' @ [CHR 0x22]
           @ ''>https://fonts.googleapis.com/css2?family=Inter:wght@300;400;500;600;700;800;900&amp;family=Playfair+Display:wght@700;800&amp;display=swap</font>'') ''SmallText'',
         PageBreak]]"

definition story_part_8 :: "bool \<Rightarrow> (error + flowable list) list" where
  "story_part_8 logo_file =
     [ok
        [Paragraph ''Buttons & UI Components'' ''SectionHeader'',
         HRFlowable ''100%'' 2 BLUE_PRIMARY 12,
         Paragraph ''Button Variants'' ''SubHeader'',
         TableF
           \<lparr>table_data =
               [[Str ''Variant'', Str ''Background'', Str ''Text'', Str ''Shadow'', Str
                  ''Usage''],
                [Str ''Primary'', Str ''gradient(#1a6ef5, #338dff)'', Str ''White'', Str
                  ''brand-500/30'', Str ''Main CTA: Get Started, Apply Now''],
                [Str ''Secondary'', Str ''White + 2px brand border'', Str ''#1a6ef5'', Str
                  ''None'', Str ''Secondary: Explore Services''],
                [Str ''Accent'', Str ''gradient(#f97316, #fb923c)'', Str ''White'', Str
                  ''accent-500/30'', Str ''Highlight CTA''],
                [Str ''Dark'', Str ''#142857 solid'', Str ''White'', Str ''None'', Str
                  ''Subtle: Learn More'']],
            colWidths = [0.8 * inch, 1.8 * inch, 0.7 * inch, 1.0 * inch, CONTENT_WIDTH - 4.3
               * inch],
            repeatRows = 0,
            table_style =
               [FONTNAME (0, 0) (-1, 0) ''Helvetica-Bold'',
                FONTSIZE (0, 0) (-1, 0) 8,
                TEXTCOLOR (0, 0) (-1, 0) WHITE,
                BACKGROUND (0, 0) (-1, 0) NAVY,
                FONTNAME (0, 1) (-1, -1) ''Helvetica'',
                FONTSIZE (0, 1) (-1, -1) 8,
                FONTNAME (0, 1) (0, -1) ''Helvetica-Bold'',
                VALIGN (0, 0) (-1, -1) ''MIDDLE'',
                TOPPADDING (0, 0) (-1, -1) 5,
                BOTTOMPADDING (0, 0) (-1, -1) 5,
                LEFTPADDING (0, 0) (-1, -1) 6,
                GRID (0, 0) (-1, -1) 0.5 (RGBColor 0xD1 0xD5 0xDB),
                ROWBACKGROUNDS (0, 1) (-1, -1) [WHITE, BLUE_TINT]]\<rparr>,
         Spacer 1 6,
         Paragraph (''Border-radius: 100px (pill shape)  '' @ bullet @ ''  Padding: 12px 28px  ''
           @ bullet @ ''  Font: Inter SemiBold 14px  '' @ bullet @ ''  Transition: 300ms'')
           ''CaptionText'',
         Spacer 1 14,
         Paragraph ''UI Effects'' ''SubHeader'',
         TableF
           \<lparr>table_data =
               [[Str ''Effect'', Str ''CSS Properties'', Str ''Usage''],
                [Str ''Glass Morphism'', Str
                  (''bg: rgba(255,255,255,0.08); backdrop-filter: blur(20px);'' @ [CHR 0x0A]
                  @ ''border: 1px solid rgba(255,255,255,0.15)''), Str
                  ''Hero stats, overlaid cards''],
                [Str ''Card Hover'', Str (''transform: translateY(-8px);'' @ [CHR 0x0A]
                  @ ''box-shadow: 0 25px 60px rgba(0,0,0,0.12)''), Str
                  ''Service cards, feature cards''],
                [Str ''Pulse Glow'', Str ''box-shadow: 0 0 20-40px rgba(26,110,245,0.3-0.6)'',
                  Str ''Active states, attention draw''],
                [Str ''Scroll Reveal'', Str (''opacity: 0'' @ rarrow @ ''1; translateY(30px)''
                  @ rarrow @ ''0;'' @ [CHR 0x0A] @ ''transition: 0.8s ease''), Str
                  ''Section entrance animations'']],
            colWidths = [1.1 * inch, 3.0 * inch, CONTENT_WIDTH - 4.1 * inch],
            repeatRows = 0,
            table_style =
               [FONTNAME (0, 0) (-1, 0) ''Helvetica-Bold'',
                FONTSIZE (0, 0) (-1, 0) 8,
                TEXTCOLOR (0, 0) (-1, 0) WHITE,
                BACKGROUND (0, 0) (-1, 0) NAVY,
                FONTNAME (0, 1) (-1, -1) ''Helvetica'',
                FONTSIZE (0, 1) (-1, -1) 8,
                FONTNAME (0, 1) (0, -1) ''Helvetica-Bold'',
                FONTNAME (1, 1) (1, -1) ''Courier'',
                VALIGN (0, 0) (-1, -1) ''TOP'',
                TOPPADDING (0, 0) (-1, -1) 5,
                BOTTOMPADDING (0, 0) (-1, -1) 5,
                LEFTPADDING (0, 0) (-1, -1) 6,
                GRID (0, 0) (-1, -1) 0.5 (RGBColor 0xD1 0xD5 0xDB),
                ROWBACKGROUNDS (0, 1) (-1, -1) [WHITE, BLUE_TINT]]\<rparr>,
         PageBreak]]"

definition story_part_9 :: "bool \<Rightarrow> (error + flowable list) list" where
  "story_part_9 logo_file =
     [ok
        [Paragraph ''Brand Information'' ''SectionHeader'',
         HRFlowable ''100%'' 2 BLUE_PRIMARY 12,
         Paragraph ''Company Details'' ''SubHeader'',
         TableF
           \<lparr>table_data =
               [[Str ''Field'', Str ''Value''],
                [Str ''Company Name'', Str ''CredSuvidha''],
                [Str ''Tagline'', Str ''Trusted Partner. Swift Solutions.''],
                [Str ''Description'', Str ''Smart Financial Solutions for a Better Tomorrow''],
                [Str ''Domain'', Str ''www.credsuvidha.com''],
                [Str ''Industry'', Str ''Financial Services (Fintech)''],
                [Str ''Copyright'', Str (copyright
                  @ '' 2025 CredSuvidha. All rights reserved.'')]],
            colWidths = [1.5 * inch, CONTENT_WIDTH - 1.5 * inch],
            repeatRows = 0,
            table_style =
               [FONTNAME (0, 0) (-1, 0) ''Helvetica-Bold'',
                FONTSIZE (0, 0) (-1, 0) 9,
                TEXTCOLOR (0, 0) (-1, 0) WHITE,
                BACKGROUND (0, 0) (-1, 0) NAVY,
                FONTNAME (0, 1) (0, -1) ''Helvetica-Bold'',
                FONTNAME (1, 1) (1, -1) ''Helvetica'',
                FONTSIZE (0, 1) (-1, -1) 9,
                TEXTCOLOR (0, 1) (-1, -1) TEXT_DARK,
                VALIGN (0, 0) (-1, -1) ''MIDDLE'',
                TOPPADDING (0, 0) (-1, -1) 6,
                BOTTOMPADDING (0, 0) (-1, -1) 6,
                LEFTPADDING (0, 0) (-1, -1) 8,
                GRID (0, 0) (-1, -1) 0.5 (RGBColor 0xD1 0xD5 0xDB),
                ROWBACKGROUNDS (0, 1) (-1, -1) [WHITE, BLUE_TINT]]\<rparr>,
         Spacer 1 14,
         Paragraph ''Contact Information'' ''SubHeader'',
         TableF
           \<lparr>table_data =
               [[Str ''Channel'', Str ''Details''],
                [Str ''Phone'', Str ''+91 93076 73391''],
                [Str ''Email'', Str ''info@credsuvidha.com''],
                [Str ''Website'', Str ''https://www.credsuvidha.com''],
                [Str ''Social'', Str (''Facebook  '' @ bullet @ ''  Twitter/X  '' @ bullet
                  @ ''  LinkedIn  '' @ bullet @ ''  Instagram'')]],
            colWidths = [1.5 * inch, CONTENT_WIDTH - 1.5 * inch],
            repeatRows = 0,
            table_style =
               [FONTNAME (0, 0) (-1, 0) ''Helvetica-Bold'',
                FONTSIZE (0, 0) (-1, 0) 9,
                TEXTCOLOR (0, 0) (-1, 0) WHITE,
                BACKGROUND (0, 0) (-1, 0) BLUE_PRIMARY,
                FONTNAME (0, 1) (0, -1) ''Helvetica-Bold'',
                FONTNAME (1, 1) (1, -1) ''Helvetica'',
                FONTSIZE (0, 1) (-1, -1) 9,
                TEXTCOLOR (0, 1) (-1, -1) TEXT_DARK,
                VALIGN (0, 0) (-1, -1) ''MIDDLE'',
                TOPPADDING (0, 0) (-1, -1) 6,
                BOTTOMPADDING (0, 0) (-1, -1) 6,
                LEFTPADDING (0, 0) (-1, -1) 8,
                GRID (0, 0) (-1, -1) 0.5 (RGBColor 0xD1 0xD5 0xDB),
                ROWBACKGROUNDS (0, 1) (-1, -1) [WHITE, BLUE_TINT]]\<rparr>,
         Spacer 1 14,
         Paragraph ''Compliance & Certifications'' ''SubHeader''],
      ok (concat (map compliance_item pdf_compliance_items)),
      ok
        [Spacer 1 14,
         Paragraph ''Technical Specifications'' ''SubHeader'',
         TableF
           \<lparr>table_data =
               [[Str ''Component'', Str ''Details''],
                [Str ''CSS Framework'', Str
                  ''Tailwind CSS via CDN (cdn.tailwindcss.com) with custom theme''],
                [Str ''Fonts'', Str
                  ''Google Fonts: Inter (300-900) + Playfair Display (700-800)''],
                [Str ''JavaScript'', Str (''Vanilla JS '' @ em_dash
                  @ '' scroll reveal, counter animation, mobile menu, smooth scroll'')],
                [Str ''Architecture'', Str (''Single-page HTML application '' @ em_dash
                  @ '' no build step required'')],
                [Str ''Hosting'', Str (''Netlify (static) '' @ em_dash
                  @ '' custom domain: www.credsuvidha.com'')],
                [Str ''Git'', Str (''Version controlled '' @ em_dash
                  @ '' deployed via Git push to Netlify'')]],
            colWidths = [1.3 * inch, CONTENT_WIDTH - 1.3 * inch],
            repeatRows = 0,
            table_style =
               [FONTNAME (0, 0) (-1, 0) ''Helvetica-Bold'',
                FONTSIZE (0, 0) (-1, 0) 9,
                TEXTCOLOR (0, 0) (-1, 0) WHITE,
                BACKGROUND (0, 0) (-1, 0) NAVY,
                FONTNAME (0, 1) (0, -1) ''Helvetica-Bold'',
                FONTNAME (1, 1) (1, -1) ''Helvetica'',
                FONTSIZE (0, 1) (-1, -1) 9,
                TEXTCOLOR (0, 1) (-1, -1) TEXT_DARK,
                VALIGN (0, 0) (-1, -1) ''MIDDLE'',
                TOPPADDING (0, 0) (-1, -1) 5,
                BOTTOMPADDING (0, 0) (-1, -1) 5,
                LEFTPADDING (0, 0) (-1, -1) 8,
                GRID (0, 0) (-1, -1) 0.5 (RGBColor 0xD1 0xD5 0xDB),
                ROWBACKGROUNDS (0, 1) (-1, -1) [WHITE, BLUE_TINT]]\<rparr>,
         PageBreak]]"

definition story_part_10 :: "bool \<Rightarrow> (error + flowable list) list" where
  "story_part_10 logo_file =
     [ok
        [Paragraph ''Asset Inventory'' ''SectionHeader'',
         HRFlowable ''100%'' 2 BLUE_PRIMARY 12,
         TableF
           \<lparr>table_data =
               [[Str ''Asset'', Str ''File Path'', Str ''Purpose''],
                [Str ''Primary Logo'', Str ''logo.png'', Str (''Full logo '' @ em_dash
                  @ '' symbol + wordmark + tagline'')],
                [Str ''Logo (Assets)'', Str ''assets/images/logo.png'', Str
                  ''Same logo in organized assets folder''],
                [Str ''Brand Kit (HTML)'', Str ''assets/brandkit/brand-guidelines.html'', Str
                  ''Interactive visual brand guidelines''],
                [Str ''Brand Kit (PDF)'', Str ''assets/brandkit/CredSuvidha-BrandKit.pdf'', Str
                  ''This document''],
                [Str ''Brand Tokens'', Str ''assets/brandkit/brand-tokens.json'', Str
                  ''Machine-readable design tokens''],
                [Str ''Website'', Str ''index.html'', Str
                  ''Main website (single-page application)''],
                [Str ''Netlify Config'', Str ''netlify.toml'', Str
                  ''Deployment config with headers & redirects'']],
            colWidths = [1.2 * inch, 2.5 * inch, CONTENT_WIDTH - 3.7 * inch],
            repeatRows = 0,
            table_style =
               [FONTNAME (0, 0) (-1, 0) ''Helvetica-Bold'',
                FONTSIZE (0, 0) (-1, 0) 9,
                TEXTCOLOR (0, 0) (-1, 0) WHITE,
                BACKGROUND (0, 0) (-1, 0) NAVY,
                FONTNAME (0, 1) (-1, -1) ''Helvetica'',
                FONTSIZE (0, 1) (-1, -1) 9,
                FONTNAME (0, 1) (0, -1) ''Helvetica-Bold'',
                FONTNAME (1, 1) (1, -1) ''Courier'',
                FONTSIZE (1, 1) (1, -1) 8,
                TEXTCOLOR (0, 1) (-1, -1) TEXT_DARK,
                TEXTCOLOR (1, 1) (1, -1) BLUE_PRIMARY,
                VALIGN (0, 0) (-1, -1) ''MIDDLE'',
                TOPPADDING (0, 0) (-1, -1) 6,
                BOTTOMPADDING (0, 0) (-1, -1) 6,
                LEFTPADDING (0, 0) (-1, -1) 8,
                GRID (0, 0) (-1, -1) 0.5 (RGBColor 0xD1 0xD5 0xDB),
                ROWBACKGROUNDS (0, 1) (-1, -1) [WHITE, BLUE_TINT]]\<rparr>,
         Spacer 1 30,
         TableF
           \<lparr>table_data =
               [[Para (''<b>This brand kit is a living document.</b> As CredSuvidha ''
                  @ ''evolves, update this guide to reflect new brand elements, ''
                  @ ''services, and visual standards. Consistency is key to building ''
                  @ ''a strong, trusted brand presence.'') ''BodyLeft'']],
            colWidths = [CONTENT_WIDTH],
            repeatRows = 0,
            table_style =
               [BACKGROUND (0, 0) (-1, -1) BLUE_TINT,
                TOPPADDING (0, 0) (-1, -1) 14,
                BOTTOMPADDING (0, 0) (-1, -1) 14,
                LEFTPADDING (0, 0) (-1, -1) 16,
                RIGHTPADDING (0, 0) (-1, -1) 16,
                BOX (0, 0) (-1, -1) 1 BLUE_PRIMARY]\<rparr>]]"


definition story_steps :: "bool \<Rightarrow> (error + flowable list) list" where
  "story_steps logo_file =
     story_part_1 logo_file @ story_part_2 logo_file @ story_part_3 logo_file @
     story_part_4 logo_file @ story_part_5 logo_file @ story_part_6 logo_file @
     story_part_7 logo_file @ story_part_8 logo_file @ story_part_9 logo_file @
     story_part_10 logo_file"

text \<open>
  \<^verbatim>\<open>SimpleDocTemplate(OUTPUT_PATH, pagesize=A4, margins, title, author, subject)\<close> and
  \<^verbatim>\<open>doc.build(story, onFirstPage=draw_cover_page, onLaterPages=draw_header_footer)\<close>.
  The story is complete before the document is built. \<open>page_count\<close> is the number of
  pages reportlab's layout makes of the story: pagination is the library's, so it is a
  parameter here. \<open>Inr d\<close> is the document written to the output file; on an error nothing
  is written.
\<close>

record pdf_document =
  doc_pagesize :: "rat \<times> rat"
  doc_margins :: "rat \<times> rat \<times> rat \<times> rat"
  doc_title :: string
  doc_author :: string
  doc_subject :: string
  doc_story :: "flowable list"
  doc_pages :: "canvas_op list list"

definition build_pdf :: "bool \<Rightarrow> string \<Rightarrow> nat \<Rightarrow> error + pdf_document" where
  "build_pdf logo_file month_year page_count =
     (case run_steps (story_steps logo_file) of
        Inl e \<Rightarrow> Inl e
      | Inr story \<Rightarrow>
          (case run_builders (map (page_decoration logo_file month_year) [1..<Suc page_count]) of
             Inl e \<Rightarrow> Inl e
           | Inr decorations \<Rightarrow>
               Inr \<lparr>doc_pagesize = A4,
                    doc_margins = (MARGIN_LEFT, MARGIN_RIGHT, MARGIN_TOP, MARGIN_BOTTOM),
                    doc_title = ''CredSuvidha Brand Kit'',
                    doc_author = ''CredSuvidha'',
                    doc_subject = ''Visual Identity & Brand Guidelines'',
                    doc_story = story,
                    doc_pages = decorations\<rparr>))"

subsection \<open>Token file\<close>

text \<open>
  The state of \<^verbatim>\<open>brand-tokens.json\<close> as \<^verbatim>\<open>open\<close> and \<^verbatim>\<open>json.load\<close> see it: not
  there, there but not JSON, or JSON with its parsed value. The PDF script loads it at
  module level, before \<^verbatim>\<open>build_pdf()\<close> runs.
\<close>

datatype 'j token_file = Absent | Malformed | Valid 'j

definition load_tokens :: "'j token_file \<Rightarrow> error + 'j" where
  "load_tokens f =
     (case f of
        Absent \<Rightarrow> Inl FileNotFoundError
      | Malformed \<Rightarrow> Inl JSONDecodeError
      | Valid j \<Rightarrow> Inr j)"

section \<open>The two scripts\<close>

text \<open>
  What a run reads from outside: the token file, whether the logo file exists, and the
  clock, of which both scripts take \<^verbatim>\<open>datetime.now().strftime('%B %Y')\<close>.
\<close>

record 'j env =
  tokens_file :: "'j token_file"
  logo_exists :: bool
  clock_month_year :: string

text \<open>
  The PDF script: the module loads the tokens (lines 28 and 29), then
  \<^verbatim>\<open>build_pdf()\<close> runs. \<^verbatim>\<open>tokens\<close> is a global that nothing reads afterwards.
\<close>

definition generate_pdf :: "'j env \<Rightarrow> nat \<Rightarrow> error + pdf_document" where
  "generate_pdf env page_count =
     (case load_tokens (tokens_file env) of
        Inl e \<Rightarrow> Inl e
      | Inr tokens \<Rightarrow> build_pdf (logo_exists env) (clock_month_year env) page_count)"

text \<open>The slide-deck script never opens the token file.\<close>

definition generate_pptx :: "'j env \<Rightarrow> error + slide list" where
  "generate_pptx env = build_presentation (logo_exists env) (clock_month_year env)"

section \<open>Properties\<close>

subsection \<open>Auxiliary facts\<close>


lemma map_enumerate_index:
  assumes "\<And>i v. f (i, v) = h i"
  shows "map f (enumerate n vs) = map h [n..<n + length vs]"
proof (induction vs arbitrary: n)
  case Nil
  then show ?case by simp
next
  case (Cons v vs)
  have "[n..<n + length (v # vs)] = n # [Suc n..<Suc n + length vs]"
    by (simp add: upt_conv_Cons del: upt_Suc)
  then show ?case using Cons.IH [of "Suc n"] by (simp add: assms del: upt_Suc)
qed



subsection \<open>Gradient segments\<close>









subsection \<open>Card grids\<close>

lemma brand_value_card_origin:
  "shape_origin (hd (brand_value_card i v)) =
   grid_origin_spec (Inches 0.8) (Inches 1.65) (Inches 5.8) (Inches 2.3) (Inches 0.3) (Inches 0.25) 2 i"
  by (cases v) (simp add: brand_value_card_def grid_origin_spec_def brand_values_origin_def
        Let_def shape_origin_def add_shape_with_fill_def)

lemma effect_card_origin:
  "shape_origin (hd (effect_card i e)) =
   grid_origin_spec (Inches 0.8) (Inches 3.7) (Inches 5.9) (Inches 1.35)
     (Inches 6.3 - Inches 5.9) (Inches 1.55 - Inches 1.35) 2 i"
  by (cases e) (simp add: effect_card_def grid_origin_spec_def effects_origin_def
        Let_def shape_origin_def add_shape_with_fill_def)

lemma spec_card_origin:
  "shape_origin (hd (spec_card i sp)) =
   grid_origin_spec (Inches 0.8) (Inches 1.65) (Inches 3.7) (Inches 2.1) (Inches 0.25) (Inches 0.25) 3 i"
  by (cases sp) (simp add: spec_card_def grid_origin_spec_def technical_origin_def
        Let_def shape_origin_def add_shape_with_fill_def)

lemma gradient_card_origin:
  "shape_origin (last (gradient_card i g)) =
   (Inches 0.8 + (if i < 3 then 0 else 1) * (Inches 5.8 + Inches 0.3),
    Inches 1.65 + int (i mod 3) * (Inches 0.7 + Inches 0.55) + Inches 0.7 + Inches 0.22)"
  by (cases g) (simp add: gradient_card_def gradients_origin_def
        Let_def shape_origin_def add_textbox_def)

text \<open>
  C2 (as the code has it). The card loops of the brand-values slide, of the UI-effects
  block and of the technical slide place item \<open>i\<close> of any item list at column \<open>i mod C\<close>
  and row \<open>i div C\<close> of the specification's formula, with \<open>C = 2\<close>, \<open>2\<close> and \<open>3\<close>: index
  order is reading order, and no item gives no card. The gradients slide fills its two
  columns top to bottom instead: column \<open>0\<close> for \<open>i < 3\<close> and \<open>1\<close> otherwise, row
  \<open>i mod 3\<close> (stated on the caption that closes each card, which sits \<open>card_h +
  Inches 0.22\<close> below the card's origin). On the scenario's numbers the formula gives the
  four origins of the specification.
\<close>

theorem grid_cards_origins:
  "map (shape_origin \<circ> hd) (brand_value_cards vs) =
     map (grid_origin_spec (Inches 0.8) (Inches 1.65) (Inches 5.8) (Inches 2.3)
            (Inches 0.3) (Inches 0.25) 2) [0..<length vs] \<and>
   map (shape_origin \<circ> hd) (effect_cards es) =
     map (grid_origin_spec (Inches 0.8) (Inches 3.7) (Inches 5.9) (Inches 1.35)
            (Inches 6.3 - Inches 5.9) (Inches 1.55 - Inches 1.35) 2) [0..<length es] \<and>
   map (shape_origin \<circ> hd) (spec_cards sps) =
     map (grid_origin_spec (Inches 0.8) (Inches 1.65) (Inches 3.7) (Inches 2.1)
            (Inches 0.25) (Inches 0.25) 3) [0..<length sps] \<and>
   map (shape_origin \<circ> last) (gradient_cards gs) =
     map (\<lambda>i. (Inches 0.8 + (if i < 3 then 0 else 1) * (Inches 5.8 + Inches 0.3),
               Inches 1.65 + int (i mod 3) * (Inches 0.7 + Inches 0.55) + Inches 0.7 + Inches 0.22))
       [0..<length gs] \<and>
   map (grid_origin_spec 80 330 260 150 20 20 2) [0..<4] =
     [(80, 330), (360, 330), (80, 500), (360, 500)]"
proof (intro conjI)
  show "map (shape_origin \<circ> hd) (brand_value_cards vs) =
     map (grid_origin_spec (Inches 0.8) (Inches 1.65) (Inches 5.8) (Inches 2.3)
            (Inches 0.3) (Inches 0.25) 2) [0..<length vs]"
    unfolding brand_value_cards_def map_map
    using map_enumerate_index [where n = 0 and vs = vs
        and f = "(shape_origin \<circ> hd) \<circ> (\<lambda>(i, v). brand_value_card i v)"
        and h = "grid_origin_spec (Inches 0.8) (Inches 1.65) (Inches 5.8) (Inches 2.3)
            (Inches 0.3) (Inches 0.25) 2"]
    by (simp add: brand_value_card_origin)
  show "map (shape_origin \<circ> hd) (effect_cards es) =
     map (grid_origin_spec (Inches 0.8) (Inches 3.7) (Inches 5.9) (Inches 1.35)
            (Inches 6.3 - Inches 5.9) (Inches 1.55 - Inches 1.35) 2) [0..<length es]"
    unfolding effect_cards_def map_map
    using map_enumerate_index [where n = 0 and vs = es
        and f = "(shape_origin \<circ> hd) \<circ> (\<lambda>(i, e). effect_card i e)"
        and h = "grid_origin_spec (Inches 0.8) (Inches 3.7) (Inches 5.9) (Inches 1.35)
            (Inches 6.3 - Inches 5.9) (Inches 1.55 - Inches 1.35) 2"]
    by (simp add: effect_card_origin)
  show "map (shape_origin \<circ> hd) (spec_cards sps) =
     map (grid_origin_spec (Inches 0.8) (Inches 1.65) (Inches 3.7) (Inches 2.1)
            (Inches 0.25) (Inches 0.25) 3) [0..<length sps]"
    unfolding spec_cards_def map_map
    using map_enumerate_index [where n = 0 and vs = sps
        and f = "(shape_origin \<circ> hd) \<circ> (\<lambda>(i, sp). spec_card i sp)"
        and h = "grid_origin_spec (Inches 0.8) (Inches 1.65) (Inches 3.7) (Inches 2.1)
            (Inches 0.25) (Inches 0.25) 3"]
    by (simp add: spec_card_origin)
  show "map (shape_origin \<circ> last) (gradient_cards gs) =
     map (\<lambda>i. (Inches 0.8 + (if i < 3 then 0 else 1) * (Inches 5.8 + Inches 0.3),
               Inches 1.65 + int (i mod 3) * (Inches 0.7 + Inches 0.55) + Inches 0.7 + Inches 0.22))
       [0..<length gs]"
    unfolding gradient_cards_def map_map
    using map_enumerate_index [where n = 0 and vs = gs
        and f = "(shape_origin \<circ> last) \<circ> (\<lambda>(i, g). gradient_card i g)"
        and h = "\<lambda>i. (Inches 0.8 + (if i < 3 then 0 else 1) * (Inches 5.8 + Inches 0.3),
               Inches 1.65 + int (i mod 3) * (Inches 0.7 + Inches 0.55) + Inches 0.7 + Inches 0.22)"]
    by (simp add: gradient_card_origin)
  show "map (grid_origin_spec 80 330 260 150 20 20 2) [0..<4] =
     [(80, 330), (360, 330), (80, 500), (360, 500)]"
    by code_simp
qed

text \<open>
  C2 as stated fails on the gradients slide, one of the two loops it cites. Card 1 is
  drawn below card 0, not to its right: the six origins run down the first column and
  then down the second, while the formula with two columns alternates between them.
  Three columns misplace card 1 as well, and one column misplaces card 3.
\<close>

theorem gradients_grid_counterexample:
  "map (shape_origin \<circ> hd) (gradient_cards gradients) =
     [(731520, 1508760), (731520, 2651760), (731520, 3794760),
      (6309360, 1508760), (6309360, 2651760), (6309360, 3794760)] \<and>
   map (grid_origin_spec (Inches 0.8) (Inches 1.65) (Inches 5.8) (Inches 0.7)
          (Inches 0.3) (Inches 0.55) 2) [0..<6] =
     [(731520, 1508760), (6309360, 1508760), (731520, 2651760),
      (6309360, 2651760), (731520, 3794760), (6309360, 3794760)] \<and>
   shape_origin (hd (gradient_card 1 (gradients ! 1))) \<noteq>
     grid_origin_spec (Inches 0.8) (Inches 1.65) (Inches 5.8) (Inches 0.7)
       (Inches 0.3) (Inches 0.55) 2 1 \<and>
   shape_origin (hd (gradient_card 1 (gradients ! 1))) \<noteq>
     grid_origin_spec (Inches 0.8) (Inches 1.65) (Inches 5.8) (Inches 0.7)
       (Inches 0.3) (Inches 0.55) 3 1 \<and>
   shape_origin (hd (gradient_card 3 (gradients ! 3))) \<noteq>
     grid_origin_spec (Inches 0.8) (Inches 1.65) (Inches 5.8) (Inches 0.7)
       (Inches 0.3) (Inches 0.55) 1 3"
  by code_simp

subsection \<open>Palette table\<close>

lemma swatch_rows_Some:
  "swatch_rows sz cs = Some rows \<Longrightarrow>
   map tl rows = map (\<lambda>(n, h, u). [Str n, Str h, Str u]) cs \<and>
   map (\<lambda>row. case hd row of Swatch d \<Rightarrow> map (Some \<circ> rect_fill) (contents d) | _ \<Rightarrow> []) rows =
     map (\<lambda>(n, h, u). [HexColor h]) cs \<and>
   length rows = length cs"
proof (induction cs arbitrary: rows)
  case Nil
  then show ?case by simp
next
  case (Cons x cs)
  obtain n h u where x: "x = (n, h, u)" by (cases x)
  from Cons.prems obtain c rows' where
    c: "HexColor h = Some c" and r: "swatch_rows sz cs = Some rows'" and
    rows: "rows = [Swatch \<lparr>drawing_width = sz + 4, drawing_height = sz + 4,
                              contents = [Rect 2 2 sz sz c (Some GRID_GRAY) 0.5]\<rparr>,
                      Str n, Str h, Str u] # rows'"
    unfolding x by (auto split: option.splits)
  from Cons.IH [OF r] show ?case by (simp add: rows x c)
qed

lemma swatch_rows_total:
  "list_all (\<lambda>(n, h, u). HexColor h \<noteq> None) cs \<Longrightarrow> \<exists>rows. swatch_rows sz cs = Some rows"
  by (induction cs) (auto split: option.splits)

lemma swatch_stripe:
  assumes "k < n"
  shows "painted_background (Suc n) (Suc k) swatch_table_style None =
         Some (if even k then WHITE else BLUE_TINT)"
proof -
  have idx: "nat (int (Suc k) - resolve_index (Suc n) 1) = k"
    by (simp add: resolve_index_def)
  have rng: "resolve_index (Suc n) 1 \<le> int (Suc k) \<and> int (Suc k) \<le> resolve_index (Suc n) (- 1)"
    using assms by (simp add: resolve_index_def)
  have hdr: "\<not> (resolve_index (Suc n) 0 \<le> int (Suc k) \<and> int (Suc k) \<le> resolve_index (Suc n) 0)"
    by (simp add: resolve_index_def)
  have pick: "[WHITE, BLUE_TINT] ! (k mod length [WHITE, BLUE_TINT]) =
      (if even k then WHITE else BLUE_TINT)"
    by (auto elim!: evenE oddE simp: numeral_2_eq_2 [symmetric])
  show ?thesis
    unfolding swatch_table_style_def painted_background.simps cmd_row_background.simps
    using rng hdr
    by (simp only: idx pick if_True if_False option.case simp_thms list.distinct)
qed

lemma swatch_header: "painted_background (Suc n) 0 swatch_table_style None = Some NAVY"
  by (simp add: swatch_table_style_def resolve_index_def)

lemma stripes_map:
  "map (\<lambda>r. painted_background (Suc n) r swatch_table_style None) [1..<Suc n] =
   map (\<lambda>i. Some (if even i then WHITE else BLUE_TINT)) [0..<n]"
proof -
  have "[1..<Suc n] = map Suc [0..<n]" by (simp add: map_Suc_upt del: upt_Suc)
  moreover have "map ((\<lambda>r. painted_background (Suc n) r swatch_table_style None) \<circ> Suc) [0..<n] =
      map (\<lambda>i. Some (if even i then WHITE else BLUE_TINT)) [0..<n]"
    by (rule map_cong [OF refl]) (simp add: swatch_stripe)
  ultimately show ?thesis by (simp del: upt_Suc)
qed

text \<open>
  C4. Whenever every hex string of the input is a colour, \<^verbatim>\<open>create_color_swatch_table\<close>
  returns a table; the table it returns has the header row first and then one data row
  per triple in exactly the input order (name, hex string and usage as passed, nothing
  sorted). Its header row is painted \<open>NAVY\<close>, and data row \<open>i\<close> (0-based, table row
  \<open>i + 1\<close>) is painted \<open>WHITE\<close> for even \<open>i\<close> and \<open>BLUE_TINT\<close> for odd \<open>i\<close>.
\<close>

theorem palette_table_rows:
  "(list_all (\<lambda>(n, h, u). HexColor h \<noteq> None) colors_list \<longrightarrow>
      (\<exists>t. create_color_swatch_table colors_list swatch_size = Inr t)) \<and>
   (create_color_swatch_table colors_list swatch_size = Inr t \<longrightarrow>
      hd (table_data t) = [Str ''Swatch'', Str ''Name'', Str ''Hex Code'', Str ''Usage''] \<and>
      map tl (data_rows t) = map (\<lambda>(n, h, u). [Str n, Str h, Str u]) colors_list \<and>
      row_background t 0 = Some NAVY \<and>
      map (row_background t) [1..<Suc (length colors_list)] =
        map (\<lambda>i. Some (if even i then WHITE else BLUE_TINT)) [0..<length colors_list])"
proof (intro conjI impI)
  assume "list_all (\<lambda>(n, h, u). HexColor h \<noteq> None) colors_list"
  from swatch_rows_total [OF this, of swatch_size]
  show "\<exists>t. create_color_swatch_table colors_list swatch_size = Inr t"
    by (auto simp: create_color_swatch_table_def)
next
  assume t: "create_color_swatch_table colors_list swatch_size = Inr t"
  then obtain rows where rows: "swatch_rows swatch_size colors_list = Some rows"
    and tt: "t = \<lparr>table_data = [Str ''Swatch'', Str ''Name'', Str ''Hex Code'', Str ''Usage''] # rows,
               colWidths = [0.5 * inch, 1.8 * inch, 1.2 * inch, CONTENT_WIDTH - 3.5 * inch],
               repeatRows = 1, table_style = swatch_table_style\<rparr>"
    by (auto simp: create_color_swatch_table_def split: option.splits)
  note facts = swatch_rows_Some [OF rows]
  show "hd (table_data t) = [Str ''Swatch'', Str ''Name'', Str ''Hex Code'', Str ''Usage'']"
    by (simp add: tt)
  show "map tl (data_rows t) = map (\<lambda>(n, h, u). [Str n, Str h, Str u]) colors_list"
    using facts by (simp add: tt data_rows_def)
  have len: "length (table_data t) = Suc (length colors_list)" using facts by (simp add: tt)
  show "row_background t 0 = Some NAVY"
    unfolding row_background_def len by (simp add: tt swatch_header)
  show "map (row_background t) [1..<Suc (length colors_list)] =
        map (\<lambda>i. Some (if even i then WHITE else BLUE_TINT)) [0..<length colors_list]"
    unfolding row_background_def len using stripes_map [of "length colors_list"] by (simp add: tt)
qed

text \<open>
  Three triples in the order A, B, C: the table is built, its rows read A, B, C and their
  backgrounds are white, tint, white.
\<close>

theorem palette_table_rows_witness:
  "list_all (\<lambda>(n, h, u). HexColor h \<noteq> None) [(''A'', ''#1B3A5C'', ''first''), (''B'', ''#c5961e'', ''second''), (''C'', ''#FAF6F1'', ''third'')] \<and>
   create_color_swatch_table [(''A'', ''#1B3A5C'', ''first''), (''B'', ''#c5961e'', ''second''), (''C'', ''#FAF6F1'', ''third'')] 14 =
     Inr (projr (create_color_swatch_table [(''A'', ''#1B3A5C'', ''first''), (''B'', ''#c5961e'', ''second''), (''C'', ''#FAF6F1'', ''third'')] 14)) \<and>
   map tl (data_rows (projr (create_color_swatch_table [(''A'', ''#1B3A5C'', ''first''), (''B'', ''#c5961e'', ''second''), (''C'', ''#FAF6F1'', ''third'')] 14))) =
     [[Str ''A'', Str ''#1B3A5C'', Str ''first''],
      [Str ''B'', Str ''#c5961e'', Str ''second''],
      [Str ''C'', Str ''#FAF6F1'', Str ''third'']] \<and>
   map (row_background (projr (create_color_swatch_table [(''A'', ''#1B3A5C'', ''first''), (''B'', ''#c5961e'', ''second''), (''C'', ''#FAF6F1'', ''third'')] 14))) [1..<4] =
     [Some WHITE, Some BLUE_TINT, Some WHITE]"
proof -
  let ?cs = "[(''A'', ''#1B3A5C'', ''first''), (''B'', ''#c5961e'', ''second''), (''C'', ''#FAF6F1'', ''third'')]"
  let ?t = "projr (create_color_swatch_table ?cs 14)"
  note rows = palette_table_rows [of ?cs 14 ?t]
  have valid: "list_all (\<lambda>(n, h, u). HexColor h \<noteq> None) ?cs"
    by code_simp
  from rows valid obtain t where t: "create_color_swatch_table ?cs 14 = Inr t"
    by blast
  then have built: "create_color_swatch_table ?cs 14 = Inr ?t"
    by simp
  from rows built have
    order: "map tl (data_rows ?t) = map (\<lambda>(n, h, u). [Str n, Str h, Str u]) ?cs" and
    stripes: "map (row_background ?t) [1..<Suc (length ?cs)] =
        map (\<lambda>i. Some (if even i then WHITE else BLUE_TINT)) [0..<length ?cs]"
    by blast+
  have upto: "[1..<Suc (length ?cs)] = [1..<4]"
    by code_simp
  have colours: "map (\<lambda>i. Some (if even i then WHITE else BLUE_TINT)) [0..<length ?cs] =
      [Some WHITE, Some BLUE_TINT, Some WHITE]"
    by code_simp
  from stripes have stripes': "map (row_background ?t) [1..<4] = [Some WHITE, Some BLUE_TINT, Some WHITE]"
    unfolding upto colours .
  from order have order': "map tl (data_rows ?t) =
     [[Str ''A'', Str ''#1B3A5C'', Str ''first''],
      [Str ''B'', Str ''#c5961e'', Str ''second''],
      [Str ''C'', Str ''#FAF6F1'', Str ''third'']]"
    by simp
  from valid built order' stripes' show ?thesis by blast
qed

subsection \<open>Hex strings of the palette\<close>










subsection \<open>The recurring frame\<close>

lemma run_steps_ok:
  "list_all (\<lambda>s. \<not> isl s) ss \<Longrightarrow> run_steps ss = Inr (concat (map projr ss))"
  by (induction ss) (auto split: sum.splits)

lemma logo_step_ok: "\<not> isl (if l then single (add_picture l a b c) else Inr [])"
  by (simp add: single_def add_picture_def)

lemma ok_not_isl: "\<not> isl (ok xs)"
  by (simp add: ok_def)

lemma framed_slide:
  assumes "list_all (\<lambda>s. \<not> isl s) body"
  shows "make_slide bg (frame_steps l c h n @ body) =
         Inr \<lparr>background = bg,
              shapes = add_accent_bar (Inches 0) c h @
                       (if l then [Picture (Inches 10.8) (Inches 0.2) (Inches 2.2)] else []) @
                       add_footer_bar @ add_slide_number n 12 @ concat (map projr body)\<rparr>"
proof -
  have "list_all (\<lambda>s. \<not> isl s) (frame_steps l c h n @ body)"
    using assms by (simp add: frame_steps_def ok_def add_logo_header_def single_def add_picture_def)
  from run_steps_ok [OF this] show ?thesis
    by (simp add: make_slide_def frame_steps_def ok_def add_logo_header_def single_def
          add_picture_def)
qed

lemma swatch_loops_ok:
  "\<not> isl (run_steps (map (\<lambda>(i, v). brand_blues_item i v) (enumerate 0 brand_blues)))"
  "\<not> isl (run_steps (map (\<lambda>(i, v). logo_colors_item i v) (enumerate 0 logo_colors)))"
  "\<not> isl (run_steps (map (\<lambda>(i, v). accent_colors_item i v) (enumerate 0 accent_colors)))"
  "\<not> isl (run_steps (map (\<lambda>(i, v). emerald_colors_item i v) (enumerate 0 emerald_colors)))"
  by code_simp+

lemma frame_footer:
  "take 4 (drop (if l then 2 else 1)
     (add_accent_bar (Inches 0) c h @
      (if l then [Picture (Inches 10.8) (Inches 0.2) (Inches 2.2)] else []) @
      add_footer_bar @ add_slide_number n 12 @ body)) =
   add_footer_bar @ add_slide_number n 12"
  by (simp add: add_accent_bar_def add_footer_bar_def add_slide_number_def)

lemma build_brand_overview_frame:
  "\<exists>body. build_brand_overview l =
     Inr \<lparr>background = BG_ALT,
          shapes = add_accent_bar (Inches 0) BLUE_PRIMARY (Pt 4) @
                   (if l then [Picture (Inches 10.8) (Inches 0.2) (Inches 2.2)] else []) @
                   add_footer_bar @ add_slide_number 2 12 @ body\<rparr>"
  unfolding build_brand_overview_def
  by (rule exI, rule framed_slide)
    (simp only: list.pred_inject ok_not_isl swatch_loops_ok simp_thms)

lemma build_logo_slide_frame:
  "\<exists>body. build_logo_slide l =
     Inr \<lparr>background = BG_ALT,
          shapes = add_accent_bar (Inches 0) BLUE_PRIMARY (Pt 4) @
                   (if l then [Picture (Inches 10.8) (Inches 0.2) (Inches 2.2)] else []) @
                   add_footer_bar @ add_slide_number 3 12 @ body\<rparr>"
  unfolding build_logo_slide_def
  apply (rule exI, rule framed_slide)
  apply (cases l)
   apply (simp_all only: list.pred_inject ok_not_isl simp_thms if_True if_False sum.disc)
  apply (simp add: ok_def single_def add_picture_def)
  done

lemma build_color_palette_slide_frame:
  "\<exists>body. build_color_palette_slide l =
     Inr \<lparr>background = BG_ALT,
          shapes = add_accent_bar (Inches 0) BLUE_PRIMARY (Pt 4) @
                   (if l then [Picture (Inches 10.8) (Inches 0.2) (Inches 2.2)] else []) @
                   add_footer_bar @ add_slide_number 4 12 @ body\<rparr>"
  unfolding build_color_palette_slide_def
  by (rule exI, rule framed_slide)
    (simp only: list.pred_inject ok_not_isl swatch_loops_ok simp_thms)

lemma build_gradients_slide_frame:
  "\<exists>body. build_gradients_slide l =
     Inr \<lparr>background = BG_ALT,
          shapes = add_accent_bar (Inches 0) BLUE_PRIMARY (Pt 4) @
                   (if l then [Picture (Inches 10.8) (Inches 0.2) (Inches 2.2)] else []) @
                   add_footer_bar @ add_slide_number 5 12 @ body\<rparr>"
  unfolding build_gradients_slide_def gradients_slide_of_def
  by (rule exI, rule framed_slide)
    (simp only: list.pred_inject ok_not_isl swatch_loops_ok simp_thms)

lemma build_typography_slide_frame:
  "\<exists>body. build_typography_slide l =
     Inr \<lparr>background = BG_ALT,
          shapes = add_accent_bar (Inches 0) BLUE_PRIMARY (Pt 4) @
                   (if l then [Picture (Inches 10.8) (Inches 0.2) (Inches 2.2)] else []) @
                   add_footer_bar @ add_slide_number 6 12 @ body\<rparr>"
  unfolding build_typography_slide_def
  by (rule exI, rule framed_slide)
    (simp only: list.pred_inject ok_not_isl swatch_loops_ok simp_thms)

lemma build_buttons_ui_slide_frame:
  "\<exists>body. build_buttons_ui_slide l =
     Inr \<lparr>background = BG_ALT,
          shapes = add_accent_bar (Inches 0) BLUE_PRIMARY (Pt 4) @
                   (if l then [Picture (Inches 10.8) (Inches 0.2) (Inches 2.2)] else []) @
                   add_footer_bar @ add_slide_number 7 12 @ body\<rparr>"
  unfolding build_buttons_ui_slide_def
  by (rule exI, rule framed_slide)
    (simp only: list.pred_inject ok_not_isl swatch_loops_ok simp_thms)

lemma build_brand_values_slide_frame:
  "\<exists>body. build_brand_values_slide l =
     Inr \<lparr>background = BG_ALT,
          shapes = add_accent_bar (Inches 0) BLUE_PRIMARY (Pt 4) @
                   (if l then [Picture (Inches 10.8) (Inches 0.2) (Inches 2.2)] else []) @
                   add_footer_bar @ add_slide_number 8 12 @ body\<rparr>"
  unfolding build_brand_values_slide_def
  by (rule exI, rule framed_slide)
    (simp only: list.pred_inject ok_not_isl swatch_loops_ok simp_thms)

lemma build_contact_compliance_slide_frame:
  "\<exists>body. build_contact_compliance_slide l =
     Inr \<lparr>background = BG_ALT,
          shapes = add_accent_bar (Inches 0) BLUE_PRIMARY (Pt 4) @
                   (if l then [Picture (Inches 10.8) (Inches 0.2) (Inches 2.2)] else []) @
                   add_footer_bar @ add_slide_number 9 12 @ body\<rparr>"
  unfolding build_contact_compliance_slide_def
  by (rule exI, rule framed_slide)
    (simp only: list.pred_inject ok_not_isl swatch_loops_ok simp_thms)

lemma build_technical_slide_frame:
  "\<exists>body. build_technical_slide l =
     Inr \<lparr>background = BG_ALT,
          shapes = add_accent_bar (Inches 0) BLUE_PRIMARY (Pt 4) @
                   (if l then [Picture (Inches 10.8) (Inches 0.2) (Inches 2.2)] else []) @
                   add_footer_bar @ add_slide_number 10 12 @ body\<rparr>"
  unfolding build_technical_slide_def
  by (rule exI, rule framed_slide)
    (simp only: list.pred_inject ok_not_isl swatch_loops_ok simp_thms)

lemma build_summary_slide_frame:
  "\<exists>body. build_summary_slide l =
     Inr \<lparr>background = BLUE_TINT,
          shapes = add_accent_bar (Inches 0) NAVY_DARK (Pt 5) @
                   (if l then [Picture (Inches 10.8) (Inches 0.2) (Inches 2.2)] else []) @
                   add_footer_bar @ add_slide_number 11 12 @ body\<rparr>"
  unfolding build_summary_slide_def
  by (rule exI, rule framed_slide)
    (simp only: list.pred_inject ok_not_isl swatch_loops_ok simp_thms)

lemma title_slide_ok: "\<exists>sl. build_title_slide l m = Inr sl"
  by (cases l) (simp_all add: build_title_slide_def make_slide_def ok_def single_def add_picture_def)

lemma thankyou_texts:
  "map_sum id (concat \<circ> map shape_texts \<circ> shapes) (build_thankyou_slide l) =
   Inr [''Thank You'',
        ''+91 93076 73391  '' @ bullet @ ''  info@credsuvidha.com  '' @ bullet @ ''  www.credsuvidha.com'',
        ''Trusted Partner. '', ''Swift Solutions.'',
        copyright @ '' 2025 CredSuvidha. All rights reserved.'']"
  by (cases l) (simp_all add: build_thankyou_slide_def make_slide_def ok_def single_def
      add_picture_def add_textbox_def add_shape_with_fill_def set_font_def)

lemma upt_2_12: "[2..<12] = [2, 3, 4, 5, 6, 7, 8, 9, 10, 11 :: nat]"
  by code_simp

lemma header_footer_texts:
  "map_sum id (List.map_filter op_text) (draw_header_footer l page) =
   Inr [(LEFT, ''CredSuvidha Brand Kit''), (LEFT, footer_tagline), (RIGHT, footer_domain),
        (CENTER, ''Page '' @ str_nat page)]"
  by (cases l) (simp_all add: draw_header_footer_def Let_def ok_def single_def drawImage_def)

lemma footer_texts:
  "map shape_texts (add_footer_bar @ add_slide_number n 12) =
     [[], [footer_tagline], [footer_domain], [str_nat n @ ''/'' @ str_nat 12]]"
  "map shape_aligns (add_footer_bar @ add_slide_number n 12) = [[], [LEFT], [RIGHT], [CENTER]]"
  by (simp_all add: add_footer_bar_def add_slide_number_def add_textbox_def
      add_shape_with_fill_def set_font_def)

lemma framed_footer:
  assumes "\<exists>body. r = Inr \<lparr>background = bg,
          shapes = add_accent_bar (Inches 0) c h @
                   (if l then [Picture (Inches 10.8) (Inches 0.2) (Inches 2.2)] else []) @
                   add_footer_bar @ add_slide_number n 12 @ body\<rparr>"
  shows "\<exists>sl. r = Inr sl \<and>
           take 4 (drop (if l then 2 else 1) (shapes sl)) = add_footer_bar @ add_slide_number n 12"
proof -
  from assms obtain body where r: "r = Inr \<lparr>background = bg,
          shapes = add_accent_bar (Inches 0) c h @
                   (if l then [Picture (Inches 10.8) (Inches 0.2) (Inches 2.2)] else []) @
                   add_footer_bar @ add_slide_number n 12 @ body\<rparr>"
    by blast
  show ?thesis
    unfolding r by (rule exI, rule conjI, rule refl) (simp only: slide.simps frame_footer)
qed

text \<open>
  C6 (as the code has it). The deck is always built and has twelve slides. Each of the
  slides 2 to 11 carries, right after the accent bar and the corner logo, the footer bar
  with the tagline in a left-aligned box and the domain in a right-aligned box, and a
  centred box reading \<open>n/12\<close> with its own number \<open>n\<close>. The closing slide 12 has none of
  these: its texts are the five listed. In the PDF every page after the first is
  decorated by \<^verbatim>\<open>draw_header_footer\<close>, which draws the header title, the tagline from
  the left, the domain from the right and, centred, \<open>Page n\<close>: the page number without a
  total.
\<close>

theorem recurring_frame:
  "(case build_presentation logo_file month_year of
      Inl e \<Rightarrow> False
    | Inr slides \<Rightarrow>
        length slides = 12 \<and>
        map (\<lambda>sl. take 4 (drop (if logo_file then 2 else 1) (shapes sl))) (take 10 (drop 1 slides)) =
          map (\<lambda>n. add_footer_bar @ add_slide_number n 12) [2..<12] \<and>
        concat (map shape_texts (shapes (slides ! 11))) =
          [''Thank You'',
           ''+91 93076 73391  '' @ bullet @ ''  info@credsuvidha.com  '' @ bullet @ ''  www.credsuvidha.com'',
           ''Trusted Partner. '', ''Swift Solutions.'',
           copyright @ '' 2025 CredSuvidha. All rights reserved.'']) \<and>
   map shape_texts (add_footer_bar @ add_slide_number n 12) =
     [[], [footer_tagline], [footer_domain], [str_nat n @ ''/'' @ str_nat 12]] \<and>
   map shape_aligns (add_footer_bar @ add_slide_number n 12) = [[], [LEFT], [RIGHT], [CENTER]] \<and>
   page_decoration logo_file month_year (Suc (Suc k)) = draw_header_footer logo_file (Suc (Suc k)) \<and>
   map_sum id (List.map_filter op_text) (draw_header_footer logo_file page) =
     Inr [(LEFT, ''CredSuvidha Brand Kit''), (LEFT, footer_tagline), (RIGHT, footer_domain),
          (CENTER, ''Page '' @ str_nat page)]"
proof -
  obtain s1 where s1: "build_title_slide logo_file month_year = Inr s1"
    using title_slide_ok by blast
  obtain s2 where s2: "build_brand_overview logo_file = Inr s2"
    and f2: "take 4 (drop (if logo_file then 2 else 1) (shapes s2)) =
      add_footer_bar @ add_slide_number 2 12"
    using framed_footer [OF build_brand_overview_frame [of logo_file]] by blast
  obtain s3 where s3: "build_logo_slide logo_file = Inr s3"
    and f3: "take 4 (drop (if logo_file then 2 else 1) (shapes s3)) =
      add_footer_bar @ add_slide_number 3 12"
    using framed_footer [OF build_logo_slide_frame [of logo_file]] by blast
  obtain s4 where s4: "build_color_palette_slide logo_file = Inr s4"
    and f4: "take 4 (drop (if logo_file then 2 else 1) (shapes s4)) =
      add_footer_bar @ add_slide_number 4 12"
    using framed_footer [OF build_color_palette_slide_frame [of logo_file]] by blast
  obtain s5 where s5: "build_gradients_slide logo_file = Inr s5"
    and f5: "take 4 (drop (if logo_file then 2 else 1) (shapes s5)) =
      add_footer_bar @ add_slide_number 5 12"
    using framed_footer [OF build_gradients_slide_frame [of logo_file]] by blast
  obtain s6 where s6: "build_typography_slide logo_file = Inr s6"
    and f6: "take 4 (drop (if logo_file then 2 else 1) (shapes s6)) =
      add_footer_bar @ add_slide_number 6 12"
    using framed_footer [OF build_typography_slide_frame [of logo_file]] by blast
  obtain s7 where s7: "build_buttons_ui_slide logo_file = Inr s7"
    and f7: "take 4 (drop (if logo_file then 2 else 1) (shapes s7)) =
      add_footer_bar @ add_slide_number 7 12"
    using framed_footer [OF build_buttons_ui_slide_frame [of logo_file]] by blast
  obtain s8 where s8: "build_brand_values_slide logo_file = Inr s8"
    and f8: "take 4 (drop (if logo_file then 2 else 1) (shapes s8)) =
      add_footer_bar @ add_slide_number 8 12"
    using framed_footer [OF build_brand_values_slide_frame [of logo_file]] by blast
  obtain s9 where s9: "build_contact_compliance_slide logo_file = Inr s9"
    and f9: "take 4 (drop (if logo_file then 2 else 1) (shapes s9)) =
      add_footer_bar @ add_slide_number 9 12"
    using framed_footer [OF build_contact_compliance_slide_frame [of logo_file]] by blast
  obtain s10 where s10: "build_technical_slide logo_file = Inr s10"
    and f10: "take 4 (drop (if logo_file then 2 else 1) (shapes s10)) =
      add_footer_bar @ add_slide_number 10 12"
    using framed_footer [OF build_technical_slide_frame [of logo_file]] by blast
  obtain s11 where s11: "build_summary_slide logo_file = Inr s11"
    and f11: "take 4 (drop (if logo_file then 2 else 1) (shapes s11)) =
      add_footer_bar @ add_slide_number 11 12"
    using framed_footer [OF build_summary_slide_frame [of logo_file]] by blast
  obtain s12 where s12: "build_thankyou_slide logo_file = Inr s12"
    and t12: "concat (map shape_texts (shapes s12)) =
          [''Thank You'',
           ''+91 93076 73391  '' @ bullet @ ''  info@credsuvidha.com  '' @ bullet @ ''  www.credsuvidha.com'',
           ''Trusted Partner. '', ''Swift Solutions.'',
           copyright @ '' 2025 CredSuvidha. All rights reserved.'']"
    using thankyou_texts [of logo_file] by (cases "build_thankyou_slide logo_file") auto
  have deck: "case build_presentation logo_file month_year of
      Inl e \<Rightarrow> False
    | Inr slides \<Rightarrow>
        length slides = 12 \<and>
        map (\<lambda>sl. take 4 (drop (if logo_file then 2 else 1) (shapes sl))) (take 10 (drop 1 slides)) =
          map (\<lambda>n. add_footer_bar @ add_slide_number n 12) [2..<12] \<and>
        concat (map shape_texts (shapes (slides ! 11))) =
          [''Thank You'',
           ''+91 93076 73391  '' @ bullet @ ''  info@credsuvidha.com  '' @ bullet @ ''  www.credsuvidha.com'',
           ''Trusted Partner. '', ''Swift Solutions.'',
           copyright @ '' 2025 CredSuvidha. All rights reserved.'']"
    unfolding build_presentation_def upt_2_12
    by (simp add: s1 s2 s3 s4 s5 s6 s7 s8 s9 s10 s11 s12 t12 f2 f3 f4 f5 f6 f7 f8 f9 f10 f11)
  have page: "page_decoration logo_file month_year (Suc (Suc k)) =
      draw_header_footer logo_file (Suc (Suc k))"
    by (simp add: page_decoration_def)
  from deck footer_texts [of n] page header_footer_texts [of logo_file page]
  show ?thesis by blast
qed

text \<open>
  C6 as stated fails twice. Page 2 of the PDF shows \<open>Page 2\<close>, an index with no total;
  and slide 12 of the deck, which is not the cover, shows neither the tagline footer, nor
  the domain, nor a slide number.
\<close>

theorem frame_counterexample:
  "map_sum id (List.map_filter op_text) (page_decoration True ''November 2026'' 2) =
     Inr [(LEFT, ''CredSuvidha Brand Kit''), (LEFT, footer_tagline), (RIGHT, footer_domain),
          (CENTER, ''Page 2'')] \<and>
   map_sum id (concat \<circ> map shape_texts \<circ> shapes) (build_thankyou_slide True) =
     Inr [''Thank You'',
          ''+91 93076 73391  '' @ bullet @ ''  info@credsuvidha.com  '' @ bullet @ ''  www.credsuvidha.com'',
          ''Trusted Partner. '', ''Swift Solutions.'',
          copyright @ '' 2025 CredSuvidha. All rights reserved.'']"
  by code_simp

subsection \<open>Layout configuration\<close>






subsection \<open>The token file\<close>

lemma run_builders_ok:
  "list_all (\<lambda>b. \<not> isl b) bs \<Longrightarrow> run_builders bs = Inr (map projr bs)"
  by (induction bs) (auto split: sum.splits)

lemma content_slide_ok:
  "\<not> isl (build_brand_overview l)" "\<not> isl (build_logo_slide l)"
  "\<not> isl (build_color_palette_slide l)" "\<not> isl (build_gradients_slide l)"
  "\<not> isl (build_typography_slide l)" "\<not> isl (build_buttons_ui_slide l)"
  "\<not> isl (build_brand_values_slide l)" "\<not> isl (build_contact_compliance_slide l)"
  "\<not> isl (build_technical_slide l)" "\<not> isl (build_summary_slide l)"
  using build_brand_overview_frame [of l] build_logo_slide_frame [of l]
    build_color_palette_slide_frame [of l] build_gradients_slide_frame [of l]
    build_typography_slide_frame [of l] build_buttons_ui_slide_frame [of l]
    build_brand_values_slide_frame [of l] build_contact_compliance_slide_frame [of l]
    build_technical_slide_frame [of l] build_summary_slide_frame [of l]
  by auto

lemma cover_slides_ok:
  "\<not> isl (build_title_slide l m)" "\<not> isl (build_thankyou_slide l)"
  using title_slide_ok [of l m] thankyou_texts [of l]
  by (auto simp: isl_def)

lemma deck_ok:
  "build_presentation l m =
     Inr [projr (build_title_slide l m), projr (build_brand_overview l),
          projr (build_logo_slide l), projr (build_color_palette_slide l),
          projr (build_gradients_slide l), projr (build_typography_slide l),
          projr (build_buttons_ui_slide l), projr (build_brand_values_slide l),
          projr (build_contact_compliance_slide l), projr (build_technical_slide l),
          projr (build_summary_slide l), projr (build_thankyou_slide l)]"
  unfolding build_presentation_def
  by (subst run_builders_ok) (simp_all add: content_slide_ok cover_slides_ok)

text \<open>
  C7 (as the code has it). The PDF script aborts on the token file: when the file is
  absent the run ends with the \<^verbatim>\<open>FileNotFoundError\<close> of \<^verbatim>\<open>open\<close>, when it is not JSON
  with the \<^verbatim>\<open>JSONDecodeError\<close> of \<^verbatim>\<open>json.load\<close>, in both cases before \<^verbatim>\<open>build_pdf\<close>
  runs, so no document is written. The slide-deck script does not read the token file:
  whatever its state, the run is the same and writes its twelve slides.
\<close>

theorem token_file_required_by_pdf_only:
  "generate_pdf (env\<lparr>tokens_file := Absent\<rparr>) page_count = Inl FileNotFoundError \<and>
   generate_pdf (env\<lparr>tokens_file := Malformed\<rparr>) page_count = Inl JSONDecodeError \<and>
   generate_pptx (env\<lparr>tokens_file := f\<rparr>) = generate_pptx env \<and>
   (case generate_pptx (env\<lparr>tokens_file := f\<rparr>) of
      Inl e \<Rightarrow> False
    | Inr slides \<Rightarrow> length slides = 12)"
  by (simp add: generate_pdf_def generate_pptx_def load_tokens_def deck_ok)

text \<open>
  C7 as stated fails for the slide-deck generator: with the token file absent, and with
  it malformed, the deck of twelve slides is built and saved.
\<close>

theorem pptx_ignores_tokens_counterexample:
  "(case generate_pptx \<lparr>tokens_file = (Absent :: unit token_file), logo_exists = True,
                        clock_month_year = ''November 2026''\<rparr> of
      Inl e \<Rightarrow> False
    | Inr slides \<Rightarrow> length slides = 12) \<and>
   (case generate_pptx \<lparr>tokens_file = (Malformed :: unit token_file), logo_exists = True,
                        clock_month_year = ''November 2026''\<rparr> of
      Inl e \<Rightarrow> False
    | Inr slides \<Rightarrow> length slides = 12)"
  by (simp add: generate_pptx_def deck_ok)

text \<open>
  C10. For any two parsed token values the PDF run gives the same result, which is that
  of \<^verbatim>\<open>build_pdf\<close> on the logo state and the clock alone: the parsed value is bound and
  never read.
\<close>

theorem pdf_independent_of_token_contents:
  "generate_pdf (env\<lparr>tokens_file := Valid t1\<rparr>) page_count =
     generate_pdf (env\<lparr>tokens_file := Valid t2\<rparr>) page_count \<and>
   generate_pdf (env\<lparr>tokens_file := Valid t1\<rparr>) page_count =
     build_pdf (logo_exists env) (clock_month_year env) page_count"
  by (simp add: generate_pdf_def load_tokens_def)

end
